theory Spec2Isabelle
  imports Main "HOL-Library.Word"
begin

section \<open>aquosctl: the command encoder and the send/receive routine\<close>

text \<open>
  The development follows \<^verbatim>\<open>src/aquosctl.c\<close> (command table revision 12/16/05).
  C strings are \<^typ>\<open>string\<close>s without the terminating NUL; the values of C \<^verbatim>\<open>int\<close>
  expressions are \<^typ>\<open>int\<close>s, read through a 32-bit word where the library converts.
\<close>

subsection \<open>Characters and the C library functions the program calls\<close>

definition NUL :: char where "NUL = CHR 0x00"
definition NL :: char where "NL = CHR 0x0A"
definition CR :: char where "CR = CHR 0x0D"

definition EXIT_SUCCESS :: int where "EXIT_SUCCESS = 0"
definition EXIT_FAILURE :: int where "EXIT_FAILURE = 1"

text \<open>\<^verbatim>\<open>isspace\<close> and \<^verbatim>\<open>isdigit\<close> in the C locale.\<close>

definition isspace :: "char \<Rightarrow> bool" where
  "isspace c = (c = CHR '' '' \<or> (9 \<le> (of_char c :: nat) \<and> (of_char c :: nat) \<le> 13))"

definition isdigit :: "char \<Rightarrow> bool" where
  "isdigit c = (48 \<le> (of_char c :: nat) \<and> (of_char c :: nat) \<le> 57)"

definition digit_val :: "char \<Rightarrow> int" where
  "digit_val c = int (of_char c) - 48"

definition dec_value :: "string \<Rightarrow> int" where
  "dec_value ds = foldl (\<lambda>a c. 10 * a + digit_val c) 0 ds"

text \<open>An optional sign in front of a number: whether it is a minus, and the rest.\<close>

fun sign_split :: "string \<Rightarrow> bool \<times> string" where
  "sign_split [] = (False, [])"
| "sign_split (c # cs) =
     (if c = CHR ''-'' then (True, cs)
      else if c = CHR ''+'' then (False, cs)
      else (False, c # cs))"

text \<open>
  The value \<^verbatim>\<open>strtol\<close> gives to a sign and a run of digits, then cast to \<^verbatim>\<open>int\<close>:
  the long result is clamped to the 64-bit range and the cast keeps the low 32 bits
  (two's complement). C itself leaves a value outside \<^verbatim>\<open>int\<close> undefined for
  \<^verbatim>\<open>atoi\<close> and \<^verbatim>\<open>%d\<close>; this is what the GNU library does on Linux.
\<close>

definition long_clamp :: "int \<Rightarrow> int" where
  "long_clamp v = max (- (2 ^ 63)) (min (2 ^ 63 - 1) v)"

definition int_of_long :: "int \<Rightarrow> int" where
  "int_of_long v = sint (word_of_int v :: 32 word)"

definition c_int :: "bool \<Rightarrow> string \<Rightarrow> int" where
  "c_int neg ds = int_of_long (long_clamp (if neg then - dec_value ds else dec_value ds))"

text \<open>\<^verbatim>\<open>atoi\<close>: leading white space, an optional sign, the digits; 0 when there are none.\<close>

definition atoi :: "string \<Rightarrow> int" where
  "atoi s =
     (let (neg, t) = sign_split (dropWhile isspace s)
      in c_int neg (takeWhile isdigit t))"

text \<open>
  The \<^verbatim>\<open>%d\<close> directive of \<^verbatim>\<open>sscanf\<close> on what is left of the input: the number read
  and the rest, or nothing when no digit follows the optional sign.
\<close>

definition scan_d :: "string \<Rightarrow> (int \<times> string) option" where
  "scan_d s =
     (let (neg, t) = sign_split (dropWhile isspace s);
          ds = takeWhile isdigit t
      in if ds = [] then None else Some (c_int neg ds, dropWhile isdigit t))"

text \<open>
  \<^verbatim>\<open>sscanf(arg, "%d.%d", &chan, &subchan)\<close>: the count returned and the two variables
  afterwards; a variable that is not assigned keeps the value it had. The count is
  \<^verbatim>\<open>EOF\<close> (-1) when the input ends before anything but white space was read.
\<close>

definition sscanf_d_dot_d :: "string \<Rightarrow> int \<Rightarrow> int \<Rightarrow> int \<times> int \<times> int" where
  "sscanf_d_dot_d s chan subchan =
     (if dropWhile isspace s = [] then (- 1, chan, subchan)
      else case scan_d s of
        None \<Rightarrow> (0, chan, subchan)
      | Some (c, rest) \<Rightarrow>
          (case rest of
             [] \<Rightarrow> (1, c, subchan)
           | d # rest' \<Rightarrow>
               if d = CHR ''.'' then
                 (case scan_d rest' of
                    None \<Rightarrow> (1, c, subchan)
                  | Some (sc, _) \<Rightarrow> (2, c, sc))
               else (1, c, subchan)))"

text \<open>The decimal digits of a natural number, as \<^verbatim>\<open>printf\<close> writes them.\<close>

definition digit_char :: "nat \<Rightarrow> char" where
  "digit_char n = char_of (48 + n)"

fun utoa :: "nat \<Rightarrow> string" where
  "utoa n = (if n < 10 then [digit_char n] else utoa (n div 10) @ [digit_char (n mod 10)])"

declare utoa.simps [simp del]

text \<open>
  \<^verbatim>\<open>%0Nd\<close>: the sign, then zeros up to the width, then the digits; never truncated.
  \<^verbatim>\<open>%-Ns\<close>: the string, then spaces up to the width; never truncated.
\<close>

definition sprintf_0d :: "nat \<Rightarrow> int \<Rightarrow> string" where
  "sprintf_0d width n =
     (let ds = utoa (nat \<bar>n\<bar>);
          sgn = (if n < 0 then ''-'' else '''')
      in sgn @ replicate (width - (length sgn + length ds)) CHR ''0'' @ ds)"

definition sprintf_ls :: "nat \<Rightarrow> string \<Rightarrow> string" where
  "sprintf_ls width s = s @ replicate (width - length s) CHR '' ''"

text \<open>\<^verbatim>\<open>strncmp(buffer, lit, n) == 0\<close> for a literal of length n, on a C string.\<close>

definition strncmp_eq :: "string \<Rightarrow> string \<Rightarrow> nat \<Rightarrow> bool" where
  "strncmp_eq s lit n = (take n s = take n lit)"

text \<open>The C string held in a byte array: the bytes before the first NUL.\<close>

definition cstr :: "string \<Rightarrow> string" where
  "cstr bytes = takeWhile (\<lambda>c. c \<noteq> NUL) bytes"

subsection \<open>The process and its surroundings\<close>

text \<open>
  The globals \<^verbatim>\<open>nosend\<close> and \<^verbatim>\<open>verbose\<close> (set from the options \<^verbatim>\<open>-n\<close> and \<^verbatim>\<open>-v\<close>),
  and what the program does to the outside: the data of every \<^verbatim>\<open>write(fd, ...)\<close> in
  order, the lines printed on the two output streams, and whether the port is open
  (\<^verbatim>\<open>fd_open\<close>: set by \<^verbatim>\<open>openport\<close>, cleared by \<^verbatim>\<open>close(fd)\<close>). From the outside come
  \<^verbatim>\<open>open_error\<close> (\<open>None\<close> when the port opens, else the \<^verbatim>\<open>strerror\<close> text) and
  \<^verbatim>\<open>incoming\<close>: the bytes that the successive calls of \<^verbatim>\<open>read(fd, ...)\<close> find within the
  one second of the alarm. An empty element is a \<^verbatim>\<open>read\<close> that returns 0 or -1; when the
  list is used up the next \<^verbatim>\<open>read\<close> blocks until \<^verbatim>\<open>SIGALRM\<close>.

  \<^verbatim>\<open>overrun\<close> records that \<^verbatim>\<open>strcpy\<close> or \<^verbatim>\<open>sprintf\<close> has written past the end of its
  destination array (\<^verbatim>\<open>oparg\<close>, \<^verbatim>\<open>arg\<close> and \<^verbatim>\<open>arg2\<close> of 16 bytes, \<^verbatim>\<open>port\<close> of 32,
  \<^verbatim>\<open>cmd\<close> and \<^verbatim>\<open>param\<close> of 5). C leaves the behaviour undefined from there on, and what a
  build does depends on what lies behind the array: an operand of 16 or more characters
  can overwrite the command name that was copied before it. The model goes on with the
  text as it was given or formatted, which is what the program does only as long as the
  bytes behind the array are used by nothing else. So what the model computes once the
  flag is set is no statement about every build; the properties of accepted and of
  refused command lines below ask that the operands fit their arrays and say what the
  flag is at the end.
\<close>

record world =
  nosend :: bool
  verbose :: bool
  open_error :: "string option"
  fd_open :: bool
  incoming :: "string list"
  written :: "string list"
  stdout :: "string list"
  stderr :: "string list"
  overrun :: bool

text \<open>
  How a piece of the program ends: it returns a value, or the process is over with an
  exit status (\<^verbatim>\<open>return\<close> from \<^verbatim>\<open>main\<close>, or \<^verbatim>\<open>exit\<close>), or it has read memory that was never
  written, after which nothing can be said.
\<close>

datatype 'a res = Val 'a world | Exit int world | Undefined

text \<open>A statement whose value is not used, followed by the rest of the program.\<close>

fun discard_then :: "'a res \<Rightarrow> (world \<Rightarrow> 'b res) \<Rightarrow> 'b res" where
  "discard_then (Val _ w) k = k w"
| "discard_then (Exit st w) k = Exit st w"
| "discard_then Undefined k = Undefined"

definition printf :: "string \<Rightarrow> world \<Rightarrow> world" where
  "printf line w = w\<lparr>stdout := stdout w @ [line]\<rparr>"

definition fprintf_stderr :: "string \<Rightarrow> world \<Rightarrow> world" where
  "fprintf_stderr line w = w\<lparr>stderr := stderr w @ [line]\<rparr>"

definition write_fd :: "string \<Rightarrow> world \<Rightarrow> world" where
  "write_fd bytes w = w\<lparr>written := written w @ [bytes]\<rparr>"

text \<open>
  \<^verbatim>\<open>strcpy\<close> or \<^verbatim>\<open>sprintf\<close> into an array of n bytes: the array takes a string of fewer
  than n characters and its NUL; a longer one is written past its end.
\<close>

definition store :: "nat \<Rightarrow> string \<Rightarrow> world \<Rightarrow> world" where
  "store n s w = w\<lparr>overrun := (overrun w \<or> n \<le> length s)\<rparr>"

definition close_fd :: "world \<Rightarrow> world" where
  "close_fd w = w\<lparr>fd_open := False\<rparr>"

text \<open>\<^verbatim>\<open>leave\<close>, the handler of \<^verbatim>\<open>SIGALRM\<close>.\<close>

definition leave :: "world \<Rightarrow> 'a res" where
  "leave w = Exit EXIT_FAILURE (close_fd (printf (''No response.'' @ [NL]) w))"

definition openport :: "string \<Rightarrow> world \<Rightarrow> unit res" where
  "openport port w =
     (case open_error w of
        Some reason \<Rightarrow>
          Exit EXIT_FAILURE
            (fprintf_stderr (''openport('' @ port @ ''): '' @ reason @ [NL]) w)
      | None \<Rightarrow> Val () (w\<lparr>fd_open := True\<rparr>))"

subsection \<open>sendcommand\<close>

text \<open>
  The loop of \<^verbatim>\<open>sendcommand\<close> that fills \<^verbatim>\<open>buffer[255]\<close>: each \<^verbatim>\<open>read\<close> may take at most
  the 254 bytes less what is already there. The loop ends when \<^verbatim>\<open>read\<close> returns nothing
  (also when it is asked for 0 bytes, the buffer being full) or when the last byte just
  read is a newline or a carriage return. The result is the bytes in the buffer and
  what is left to read, or \<open>None\<close> when \<^verbatim>\<open>read\<close> blocks: then the alarm ends the process.
\<close>

fun read_loop :: "string \<Rightarrow> string list \<Rightarrow> (string \<times> string list) option" where
  "read_loop buf [] = (if 254 \<le> length buf then Some (buf, []) else None)"
| "read_loop buf (chunk # rest) =
     (let room = 254 - length buf;
          got = take room chunk;
          left = (if drop room chunk = [] then rest else drop room chunk # rest)
      in if room = 0 then Some (buf, chunk # rest)
         else if got = [] then Some (buf, rest)
         else if last got = NL \<or> last got = CR then Some (buf @ got, left)
         else if drop room chunk = [] then read_loop (buf @ got) rest
         else Some (buf @ got, left))"

text \<open>
  \<^verbatim>\<open>sendcommand\<close>. After the loop the byte before \<^verbatim>\<open>buffptr\<close> is overwritten with NUL;
  when nothing was read that byte lies before the buffer and the buffer was never
  written. The return values of the three \<^verbatim>\<open>write\<close> calls are not looked at.
\<close>

definition sendcommand :: "string \<Rightarrow> string \<Rightarrow> world \<Rightarrow> int res" where
  "sendcommand command parameter w0 =
     (let w1 = (if verbose w0 \<or> nosend w0
                then printf (''command='' @ [CHR 0x27] @ command @ [CHR 0x27] @
                             '', parameter='' @ [CHR 0x27] @ parameter @ [CHR 0x27] @ [NL]) w0
                else w0)
      in if nosend w1 then Val EXIT_SUCCESS w1
         else
           let w2 = write_fd [CR] (write_fd parameter (write_fd command w1))
           in case read_loop [] (incoming w2) of
                None \<Rightarrow> leave (w2\<lparr>incoming := []\<rparr>)
              | Some (bytes, left) \<Rightarrow>
                  if bytes = [] then Undefined
                  else
                    let w3 = w2\<lparr>incoming := left\<rparr>;
                        buffer = cstr (butlast bytes)
                    in if strncmp_eq buffer ''OK'' 2 then
                         Val EXIT_SUCCESS
                           (if verbose w3 then printf (''Success.'' @ [NL]) w3 else w3)
                       else if strncmp_eq buffer ''ERR'' 3 then
                         Val EXIT_FAILURE
                           (fprintf_stderr
                              (''Error: command/param '' @ [CHR 0x27] @ command @ parameter @
                               [CHR 0x27] @ [NL]) w3)
                       else
                         Val EXIT_FAILURE
                           (fprintf_stderr
                              (''Error: unexpected response '' @ [CHR 0x27] @ buffer @
                               [CHR 0x27] @ '' to command/param '' @ [CHR 0x27] @ command @
                               parameter @ [CHR 0x27] @ [NL]) w3))"

subsection \<open>The command table and checkcmd\<close>

datatype command =
    CMD_NONE | CMD_POENABLE | CMD_POWER | CMD_INPUT | CMD_AVMODE | CMD_VOLUME
  | CMD_HPOS | CMD_VPOS | CMD_CLOCK | CMD_PHASE | CMD_VIEWMODE | CMD_MUTE
  | CMD_SURROUND | CMD_AUDIOSEL | CMD_SLEEP | CMD_ACHAN | CMD_DCHAN | CMD_DCABL1
  | CMD_DCABL2 | CMD_CHUP | CMD_CHDN | CMD_CC

text \<open>\<^verbatim>\<open>cmdtab\<close>: the command, its code, and the two texts the usage message shows.\<close>

definition cmdtab :: "(string \<times> command \<times> string \<times> string) list" where
  "cmdtab =
     [(''poenable'', CMD_POENABLE, ''{ on | off }'',
         ''Enable/Disable power on command.''),
      (''power'', CMD_POWER, ''{ on | off }'',
         ''Turn TV on/off.''),
      (''input'', CMD_INPUT, ''[ tv | 1 - 7 ]'',
         ''Select TV, INPUT1-7; blank to toggle.''),
      (''avmode'', CMD_AVMODE, ''[standard|movie|game|user|dyn-fixed|dyn|pc|xvycc]'',
         ''AV mode selection; blank to toggle.''),
      (''vol'', CMD_VOLUME, ''{ 0 - 60 }'',
         ''Set volume (0-60).''),
      (''hpos'', CMD_HPOS, ''<varies depending on View Mode or signal type>'',
         ''Horizontal Position. Ranges are on the position setting screen.''),
      (''vpos'', CMD_VPOS, ''<varies depending on View Mode or signal type>'',
         ''Vertical Position. Ranges are on the position setting screen.''),
      (''clock'', CMD_CLOCK, ''{ 0 - 180 }'',
         ''Only in PC mode.''),
      (''phase'', CMD_PHASE, ''{ 1 - 40 }'',
         ''Only in PC mode.''),
      (''viewmode'', CMD_VIEWMODE, ''{sidebar|sstretch|zoom|stretch|normal|zoom-pc|stretch-pc|dotbydot|full}'',
         ''View modes (vary depending on input signal type -- see manual).''),
      (''mute'', CMD_MUTE, ''[ on | off ]'',
         ''Mute on/off; blank to toggle.''),
      (''surround'', CMD_SURROUND, ''[ on | off ]'',
         ''Surround on/off; blank to toggle.''),
      (''audiosel'', CMD_AUDIOSEL, ''<none>'',
         ''Audio selection toggle.''),
      (''sleep'', CMD_SLEEP, ''{ off or 0 | 30 | 60 | 90 | 120 }'',
         ''Sleep timer off or 30/60/90/120 minutes.''),
      (''achan'', CMD_ACHAN, ''{ 1 - 135 }'',
         ''Analog channel selection. Over-the-air: 2-69, Cable: 1-135.''),
      (''dchan'', CMD_DCHAN, ''{ xx.yy } or { xx } (xx=channel 1-99, yy=subchannel 1-99)'',
         ''Digital over-the-air channel selection.''),
      (''dcabl1'', CMD_DCABL1, ''{ xxx.yyy } or { xxx } (xxx=major ch. 1-999, yyy=minor ch. 0-999)'',
         ''Digital cable (type one).''),
      (''dcabl2'', CMD_DCABL2, ''{ 0 - 16383 }'',
         ''Digital cable (type two), channels 0-16383.''),
      (''chup'', CMD_CHUP, ''<none>'',
         ''Channel up. Will switch to TV input if not already selected.''),
      (''chdn'', CMD_CHDN, ''<none>'',
         ''Channel down. Will switch to TV input if not already selected.''),
      (''cc'', CMD_CC, ''<none>'',
         ''Closed Caption toggle.'')]"

fun checkcmd_in ::
  "(string \<times> command \<times> string \<times> string) list \<Rightarrow> string \<Rightarrow> command" where
  "checkcmd_in [] string = CMD_NONE"
| "checkcmd_in ((cmd, opcode, args, desc) # tab) string =
     (if cmd = string then opcode else checkcmd_in tab string)"

definition checkcmd :: "string \<Rightarrow> command" where
  "checkcmd string = checkcmd_in cmdtab string"

subsection \<open>The cases of the switch in main\<close>

text \<open>
  The \<^verbatim>\<open>fprintf\<close> and \<^verbatim>\<open>return(EXIT_FAILURE)\<close> of an argument that is refused.
\<close>

definition invalid_parameter :: "string \<Rightarrow> string \<Rightarrow> string \<Rightarrow> world \<Rightarrow> 'a res" where
  "invalid_parameter progname arg oparg w =
     Exit EXIT_FAILURE
       (fprintf_stderr
          (progname @ '': Invalid parameter '' @ [CHR 0x22] @ arg @ [CHR 0x22] @
           '' for command '' @ oparg @ ''.'' @ [NL]) w)"

text \<open>
  Each case first chooses \<^verbatim>\<open>param\<close> (5 bytes) or refuses the argument, then calls
  \<^verbatim>\<open>sendcommand\<close> as a statement: its return value is dropped. The choice is a function
  of its own here, \<open>None\<close> for the refusal.
\<close>

definition param_POENABLE :: "string \<Rightarrow> string option" where
  "param_POENABLE arg =
     (if arg = ''off'' then Some (sprintf_ls 4 ''0'')
      else if arg = ''on'' then Some (sprintf_ls 4 ''1'')
      else None)"

definition case_POENABLE :: "string \<Rightarrow> string \<Rightarrow> string \<Rightarrow> world \<Rightarrow> unit res" where
  "case_POENABLE progname oparg arg w =
     (case param_POENABLE arg of
        None \<Rightarrow> invalid_parameter progname arg oparg w
      | Some param \<Rightarrow>
          discard_then (sendcommand ''RSPW'' param (store 5 param w)) (Val ()))"

definition param_POWER :: "string \<Rightarrow> string option" where
  "param_POWER arg =
     (if arg = ''off'' then Some (sprintf_ls 4 ''0'')
      else if arg = ''on'' then Some (sprintf_ls 4 ''1'')
      else None)"

definition case_POWER :: "string \<Rightarrow> string \<Rightarrow> string \<Rightarrow> world \<Rightarrow> unit res" where
  "case_POWER progname oparg arg w =
     (case param_POWER arg of
        None \<Rightarrow> invalid_parameter progname arg oparg w
      | Some param \<Rightarrow>
          discard_then (sendcommand ''POWR'' param (store 5 param w)) (Val ()))"

text \<open>
  \<^verbatim>\<open>input\<close> chooses the command as well; for the last three forms it is formatted into
  \<^verbatim>\<open>cmd[5]\<close> with \<^verbatim>\<open>"INP%s"\<close>. (The other commands are literals of four characters:
  taking them as stored in five bytes too changes nothing.)
\<close>

definition frame_INPUT :: "string \<Rightarrow> string \<Rightarrow> (string \<times> string) option" where
  "frame_INPUT arg arg2 =
     (if arg = '''' then Some (''ITGD'', sprintf_ls 4 ''0'')
      else if arg = ''tv'' then Some (''ITVD'', sprintf_ls 4 ''0'')
      else if (1 \<le> atoi arg \<and> atoi arg \<le> 7) \<and> arg2 = '''' then
        Some (''IAVD'', sprintf_ls 4 arg)
      else if (1 \<le> atoi arg \<and> atoi arg \<le> 7) \<and> arg2 = ''auto'' then
        Some (''INP'' @ arg, sprintf_ls 4 ''0'')
      else if (1 \<le> atoi arg \<and> atoi arg \<le> 7) \<and> arg2 = ''video'' then
        Some (''INP'' @ arg, sprintf_ls 4 ''1'')
      else if (1 \<le> atoi arg \<and> atoi arg \<le> 7) \<and> arg2 = ''component'' then
        Some (''INP'' @ arg, sprintf_ls 4 ''2'')
      else None)"

definition case_INPUT :: "string \<Rightarrow> string \<Rightarrow> string \<Rightarrow> string \<Rightarrow> world \<Rightarrow> unit res" where
  "case_INPUT progname oparg arg arg2 w =
     (case frame_INPUT arg arg2 of
        None \<Rightarrow>
          Exit EXIT_FAILURE
            (fprintf_stderr
               (progname @ '': Invalid parameter(s) for command '' @ oparg @ ''.'' @ [NL]) w)
      | Some (cmd, param) \<Rightarrow>
          discard_then (sendcommand cmd param (store 5 param (store 5 cmd w))) (Val ()))"

definition param_AVMODE :: "string \<Rightarrow> string option" where
  "param_AVMODE arg =
     (if arg = '''' then Some (sprintf_ls 4 ''0'')
      else if arg = ''standard'' then Some (sprintf_ls 4 ''1'')
      else if arg = ''movie'' then Some (sprintf_ls 4 ''2'')
      else if arg = ''game'' then Some (sprintf_ls 4 ''3'')
      else if arg = ''user'' then Some (sprintf_ls 4 ''4'')
      else if arg = ''dyn-fixed'' then Some (sprintf_ls 4 ''5'')
      else if arg = ''dyn'' then Some (sprintf_ls 4 ''6'')
      else if arg = ''pc'' then Some (sprintf_ls 4 ''7'')
      else if arg = ''xvycc'' then Some (sprintf_ls 4 ''8'')
      else None)"

definition case_AVMODE :: "string \<Rightarrow> string \<Rightarrow> string \<Rightarrow> world \<Rightarrow> unit res" where
  "case_AVMODE progname oparg arg w =
     (case param_AVMODE arg of
        None \<Rightarrow> invalid_parameter progname arg oparg w
      | Some param \<Rightarrow>
          discard_then (sendcommand ''AVMD'' param (store 5 param w)) (Val ()))"

definition param_VOLUME :: "string \<Rightarrow> string option" where
  "param_VOLUME arg =
     (if arg \<noteq> '''' \<and> (0 \<le> atoi arg \<and> atoi arg \<le> 60) then Some (sprintf_ls 4 arg)
      else None)"

definition case_VOLUME :: "string \<Rightarrow> string \<Rightarrow> string \<Rightarrow> world \<Rightarrow> unit res" where
  "case_VOLUME progname oparg arg w =
     (case param_VOLUME arg of
        None \<Rightarrow> invalid_parameter progname arg oparg w
      | Some param \<Rightarrow>
          discard_then (sendcommand ''VOLM'' param (store 5 param w)) (Val ()))"

definition param_HPOS :: "string \<Rightarrow> string option" where
  "param_HPOS arg =
     (if arg \<noteq> '''' \<and> (0 \<le> atoi arg \<and> atoi arg \<le> 999) then Some (sprintf_ls 4 arg)
      else None)"

definition case_HPOS :: "string \<Rightarrow> string \<Rightarrow> string \<Rightarrow> world \<Rightarrow> unit res" where
  "case_HPOS progname oparg arg w =
     (case param_HPOS arg of
        None \<Rightarrow> invalid_parameter progname arg oparg w
      | Some param \<Rightarrow>
          discard_then (sendcommand ''HPOS'' param (store 5 param w)) (Val ()))"

definition param_VPOS :: "string \<Rightarrow> string option" where
  "param_VPOS arg =
     (if arg \<noteq> '''' \<and> (0 \<le> atoi arg \<and> atoi arg \<le> 999) then Some (sprintf_ls 4 arg)
      else None)"

definition case_VPOS :: "string \<Rightarrow> string \<Rightarrow> string \<Rightarrow> world \<Rightarrow> unit res" where
  "case_VPOS progname oparg arg w =
     (case param_VPOS arg of
        None \<Rightarrow> invalid_parameter progname arg oparg w
      | Some param \<Rightarrow>
          discard_then (sendcommand ''VPOS'' param (store 5 param w)) (Val ()))"

definition param_CLOCK :: "string \<Rightarrow> string option" where
  "param_CLOCK arg =
     (if arg \<noteq> '''' \<and> (0 \<le> atoi arg \<and> atoi arg \<le> 180) then Some (sprintf_ls 4 arg)
      else None)"

definition case_CLOCK :: "string \<Rightarrow> string \<Rightarrow> string \<Rightarrow> world \<Rightarrow> unit res" where
  "case_CLOCK progname oparg arg w =
     (case param_CLOCK arg of
        None \<Rightarrow> invalid_parameter progname arg oparg w
      | Some param \<Rightarrow>
          discard_then (sendcommand ''CLCK'' param (store 5 param w)) (Val ()))"

definition param_PHASE :: "string \<Rightarrow> string option" where
  "param_PHASE arg =
     (if arg \<noteq> '''' \<and> (0 \<le> atoi arg \<and> atoi arg \<le> 40) then Some (sprintf_ls 4 arg)
      else None)"

definition case_PHASE :: "string \<Rightarrow> string \<Rightarrow> string \<Rightarrow> world \<Rightarrow> unit res" where
  "case_PHASE progname oparg arg w =
     (case param_PHASE arg of
        None \<Rightarrow> invalid_parameter progname arg oparg w
      | Some param \<Rightarrow>
          discard_then (sendcommand ''PHSE'' param (store 5 param w)) (Val ()))"

definition param_VIEWMODE :: "string \<Rightarrow> string option" where
  "param_VIEWMODE arg =
     (if arg = '''' then Some (sprintf_ls 4 ''0'')
      else if arg = ''sidebar'' then Some (sprintf_ls 4 ''1'')
      else if arg = ''sstretch'' then Some (sprintf_ls 4 ''2'')
      else if arg = ''zoom'' then Some (sprintf_ls 4 ''3'')
      else if arg = ''stretch'' then Some (sprintf_ls 4 ''4'')
      else if arg = ''normal'' then Some (sprintf_ls 4 ''5'')
      else if arg = ''zoom-pc'' then Some (sprintf_ls 4 ''6'')
      else if arg = ''stretch-pc'' then Some (sprintf_ls 4 ''7'')
      else if arg = ''dotbydot'' then Some (sprintf_ls 4 ''8'')
      else if arg = ''full'' then Some (sprintf_ls 4 ''9'')
      else None)"

definition case_VIEWMODE :: "string \<Rightarrow> string \<Rightarrow> string \<Rightarrow> world \<Rightarrow> unit res" where
  "case_VIEWMODE progname oparg arg w =
     (case param_VIEWMODE arg of
        None \<Rightarrow> invalid_parameter progname arg oparg w
      | Some param \<Rightarrow>
          discard_then (sendcommand ''WIDE'' param (store 5 param w)) (Val ()))"

definition param_MUTE :: "string \<Rightarrow> string option" where
  "param_MUTE arg =
     (if arg = '''' then Some (sprintf_ls 4 ''0'')
      else if arg = ''on'' then Some (sprintf_ls 4 ''1'')
      else if arg = ''off'' then Some (sprintf_ls 4 ''2'')
      else None)"

definition case_MUTE :: "string \<Rightarrow> string \<Rightarrow> string \<Rightarrow> world \<Rightarrow> unit res" where
  "case_MUTE progname oparg arg w =
     (case param_MUTE arg of
        None \<Rightarrow> invalid_parameter progname arg oparg w
      | Some param \<Rightarrow>
          discard_then (sendcommand ''MUTE'' param (store 5 param w)) (Val ()))"

definition param_SURROUND :: "string \<Rightarrow> string option" where
  "param_SURROUND arg =
     (if arg = '''' then Some (sprintf_ls 4 ''0'')
      else if arg = ''on'' then Some (sprintf_ls 4 ''1'')
      else if arg = ''off'' then Some (sprintf_ls 4 ''2'')
      else None)"

definition case_SURROUND :: "string \<Rightarrow> string \<Rightarrow> string \<Rightarrow> world \<Rightarrow> unit res" where
  "case_SURROUND progname oparg arg w =
     (case param_SURROUND arg of
        None \<Rightarrow> invalid_parameter progname arg oparg w
      | Some param \<Rightarrow>
          discard_then (sendcommand ''ACSU'' param (store 5 param w)) (Val ()))"

definition case_AUDIOSEL :: "world \<Rightarrow> unit res" where
  "case_AUDIOSEL w =
     (let param = sprintf_ls 4 ''0''
      in discard_then (sendcommand ''ACHA'' param (store 5 param w)) (Val ()))"

definition param_SLEEP :: "string \<Rightarrow> string option" where
  "param_SLEEP arg =
     (if arg = ''off'' then Some (sprintf_ls 4 ''0'')
      else if arg = ''0'' then Some (sprintf_ls 4 ''0'')
      else if arg = ''30'' then Some (sprintf_ls 4 ''1'')
      else if arg = ''60'' then Some (sprintf_ls 4 ''2'')
      else if arg = ''90'' then Some (sprintf_ls 4 ''3'')
      else if arg = ''120'' then Some (sprintf_ls 4 ''4'')
      else None)"

definition case_SLEEP :: "string \<Rightarrow> string \<Rightarrow> string \<Rightarrow> world \<Rightarrow> unit res" where
  "case_SLEEP progname oparg arg w =
     (case param_SLEEP arg of
        None \<Rightarrow> invalid_parameter progname arg oparg w
      | Some param \<Rightarrow>
          discard_then (sendcommand ''OFTM'' param (store 5 param w)) (Val ()))"

definition param_ACHAN :: "string \<Rightarrow> string option" where
  "param_ACHAN arg =
     (if (1 \<le> atoi arg \<and> atoi arg \<le> 135) then Some (sprintf_ls 4 arg)
      else None)"

definition case_ACHAN :: "string \<Rightarrow> string \<Rightarrow> string \<Rightarrow> world \<Rightarrow> unit res" where
  "case_ACHAN progname oparg arg w =
     (case param_ACHAN arg of
        None \<Rightarrow> invalid_parameter progname arg oparg w
      | Some param \<Rightarrow>
          discard_then (sendcommand ''DCCH'' param (store 5 param w)) (Val ()))"

text \<open>
  \<^verbatim>\<open>dchan\<close> and \<^verbatim>\<open>dcabl1\<close> read \<^verbatim>\<open>chan\<close> and \<^verbatim>\<open>subchan\<close>, both 0 at the start of
  \<^verbatim>\<open>main\<close>, with \<^verbatim>\<open>sscanf\<close>.
\<close>

definition param_DCHAN :: "string \<Rightarrow> string option" where
  "param_DCHAN arg =
     (let (n, chan, subchan) = sscanf_d_dot_d arg 0 0
      in if 0 < n then Some (sprintf_0d 2 chan @ sprintf_0d 2 subchan) else None)"

definition case_DCHAN :: "string \<Rightarrow> string \<Rightarrow> string \<Rightarrow> world \<Rightarrow> unit res" where
  "case_DCHAN progname oparg arg w =
     (case param_DCHAN arg of
        None \<Rightarrow> invalid_parameter progname arg oparg w
      | Some param \<Rightarrow>
          discard_then (sendcommand ''DA2P'' param (store 5 param w)) (Val ()))"

definition chan_DCABL1 :: "string \<Rightarrow> (int \<times> int) option" where
  "chan_DCABL1 arg =
     (let (n, chan, subchan) = sscanf_d_dot_d arg 0 0
      in if 0 < n \<and> (chan \<le> 999 \<and> subchan \<le> 999) then Some (chan, subchan) else None)"

definition case_DCABL1 :: "string \<Rightarrow> string \<Rightarrow> string \<Rightarrow> world \<Rightarrow> unit res" where
  "case_DCABL1 progname oparg arg w =
     (case chan_DCABL1 arg of
        None \<Rightarrow> invalid_parameter progname arg oparg w
      | Some (chan, subchan) \<Rightarrow>
          (let param = sprintf_0d 3 chan @ '' ''
           in discard_then (sendcommand ''DC2U'' param (store 5 param w))
                (\<lambda>w'. let param' = sprintf_0d 3 subchan @ '' ''
                      in discard_then (sendcommand ''DC2L'' param' (store 5 param' w'))
                           (Val ()))))"

definition frame_DCABL2 :: "string \<Rightarrow> (string \<times> string) option" where
  "frame_DCABL2 arg =
     (if 0 \<le> atoi arg \<and> atoi arg \<le> 9999 then
        Some (''DC10'', sprintf_0d 4 (atoi arg))
      else if 9999 < atoi arg \<and> atoi arg \<le> 16383 then
        Some (''DC11'', sprintf_0d 4 (atoi arg - 10000))
      else None)"

definition case_DCABL2 :: "string \<Rightarrow> string \<Rightarrow> string \<Rightarrow> world \<Rightarrow> unit res" where
  "case_DCABL2 progname oparg arg w =
     (case frame_DCABL2 arg of
        None \<Rightarrow> invalid_parameter progname arg oparg w
      | Some (cmd, param) \<Rightarrow>
          discard_then (sendcommand cmd param (store 5 param w)) (Val ()))"

definition case_CHUP :: "world \<Rightarrow> unit res" where
  "case_CHUP w =
     (let param = sprintf_ls 4 ''0''
      in discard_then (sendcommand ''CHUP'' param (store 5 param w)) (Val ()))"

definition case_CHDN :: "world \<Rightarrow> unit res" where
  "case_CHDN w =
     (let param = sprintf_ls 4 ''0''
      in discard_then (sendcommand ''CHDW'' param (store 5 param w)) (Val ()))"

definition case_CC :: "world \<Rightarrow> unit res" where
  "case_CC w =
     (let param = sprintf_ls 4 ''0''
      in discard_then (sendcommand ''CLCP'' param (store 5 param w)) (Val ()))"

definition main_switch ::
  "command \<Rightarrow> string \<Rightarrow> string \<Rightarrow> string \<Rightarrow> string \<Rightarrow> world \<Rightarrow> unit res" where
  "main_switch c progname oparg arg arg2 w =
     (case c of
        CMD_NONE \<Rightarrow>
          Exit EXIT_FAILURE
            (fprintf_stderr
               (progname @ '': bad command '' @ [CHR 0x27] @ oparg @ [CHR 0x27] @ [NL]) w)
      | CMD_POENABLE \<Rightarrow> case_POENABLE progname oparg arg w
      | CMD_POWER \<Rightarrow> case_POWER progname oparg arg w
      | CMD_INPUT \<Rightarrow> case_INPUT progname oparg arg arg2 w
      | CMD_AVMODE \<Rightarrow> case_AVMODE progname oparg arg w
      | CMD_VOLUME \<Rightarrow> case_VOLUME progname oparg arg w
      | CMD_HPOS \<Rightarrow> case_HPOS progname oparg arg w
      | CMD_VPOS \<Rightarrow> case_VPOS progname oparg arg w
      | CMD_CLOCK \<Rightarrow> case_CLOCK progname oparg arg w
      | CMD_PHASE \<Rightarrow> case_PHASE progname oparg arg w
      | CMD_VIEWMODE \<Rightarrow> case_VIEWMODE progname oparg arg w
      | CMD_MUTE \<Rightarrow> case_MUTE progname oparg arg w
      | CMD_SURROUND \<Rightarrow> case_SURROUND progname oparg arg w
      | CMD_AUDIOSEL \<Rightarrow> case_AUDIOSEL w
      | CMD_SLEEP \<Rightarrow> case_SLEEP progname oparg arg w
      | CMD_ACHAN \<Rightarrow> case_ACHAN progname oparg arg w
      | CMD_DCHAN \<Rightarrow> case_DCHAN progname oparg arg w
      | CMD_DCABL1 \<Rightarrow> case_DCABL1 progname oparg arg w
      | CMD_DCABL2 \<Rightarrow> case_DCABL2 progname oparg arg w
      | CMD_CHUP \<Rightarrow> case_CHUP w
      | CMD_CHDN \<Rightarrow> case_CHDN w
      | CMD_CC \<Rightarrow> case_CC w)"

subsection \<open>main\<close>

text \<open>
  \<^verbatim>\<open>main\<close> from the statement after the loop over the options (line 198) to its end:
  \<^verbatim>\<open>nosend\<close>, \<^verbatim>\<open>verbose\<close> and \<^verbatim>\<open>port\<close> are as the options have set them and \<open>argv\<close> is
  what is left of the command line. (The lines before, the test of \<^verbatim>\<open>argc\<close> and the loop,
  are \<open>main_argc\<close> below.) The operands are copied with \<^verbatim>\<open>strcpy\<close> into arrays of 16
  bytes, with no test of their length; the port is opened unless \<^verbatim>\<open>-n\<close> was given
  (before the command is looked up), the switch runs, and whatever \<^verbatim>\<open>sendcommand\<close>
  returned the program ends with \<^verbatim>\<open>close(fd)\<close> and \<^verbatim>\<open>return(EXIT_SUCCESS)\<close>.
\<close>

text \<open>
  \<^verbatim>\<open>oparg\<close>, \<^verbatim>\<open>arg\<close> and \<^verbatim>\<open>arg2\<close> start empty and take the first three operands that
  are there.
\<close>

definition operand :: "string list \<Rightarrow> nat \<Rightarrow> string" where
  "operand argv i = (if i < length argv then argv ! i else '''')"

definition main :: "string \<Rightarrow> string \<Rightarrow> string list \<Rightarrow> world \<Rightarrow> int res" where
  "main progname port argv w0 =
     (let w1 = (if verbose w0 then printf (''port='' @ port @ [NL]) w0 else w0);
          oparg = operand argv 0;
          arg = operand argv 1;
          arg2 = operand argv 2;
          w2 = store 16 arg2 (store 16 arg (store 16 oparg w1))
      in discard_then (if nosend w2 then Val () w2 else openport port w2)
           (\<lambda>w3. discard_then (main_switch (checkcmd oparg) progname oparg arg arg2 w3)
                   (\<lambda>w4. Val EXIT_SUCCESS (close_fd w4))))"

subsection \<open>The start of main: usage and the options\<close>







subsection \<open>Which invocations reach sendcommand\<close>

text \<open>
  An argument is accepted when the case of the switch gets past its check, that is when
  the choice of the parameter is not the refusal; the commands without an argument
  have no check, and \<open>CMD_NONE\<close> is no command.
\<close>

fun passes :: "'a option \<Rightarrow> bool" where
  "passes None = False"
| "passes (Some x) = True"

definition accepted :: "command \<Rightarrow> string \<Rightarrow> string \<Rightarrow> bool" where
  "accepted c arg arg2 =
     (case c of
        CMD_NONE \<Rightarrow> False
      | CMD_POENABLE \<Rightarrow> passes (param_POENABLE arg)
      | CMD_POWER \<Rightarrow> passes (param_POWER arg)
      | CMD_INPUT \<Rightarrow> passes (frame_INPUT arg arg2)
      | CMD_AVMODE \<Rightarrow> passes (param_AVMODE arg)
      | CMD_VOLUME \<Rightarrow> passes (param_VOLUME arg)
      | CMD_HPOS \<Rightarrow> passes (param_HPOS arg)
      | CMD_VPOS \<Rightarrow> passes (param_VPOS arg)
      | CMD_CLOCK \<Rightarrow> passes (param_CLOCK arg)
      | CMD_PHASE \<Rightarrow> passes (param_PHASE arg)
      | CMD_VIEWMODE \<Rightarrow> passes (param_VIEWMODE arg)
      | CMD_MUTE \<Rightarrow> passes (param_MUTE arg)
      | CMD_SURROUND \<Rightarrow> passes (param_SURROUND arg)
      | CMD_AUDIOSEL \<Rightarrow> True
      | CMD_SLEEP \<Rightarrow> passes (param_SLEEP arg)
      | CMD_ACHAN \<Rightarrow> passes (param_ACHAN arg)
      | CMD_DCHAN \<Rightarrow> passes (param_DCHAN arg)
      | CMD_DCABL1 \<Rightarrow> passes (chan_DCABL1 arg)
      | CMD_DCABL2 \<Rightarrow> passes (frame_DCABL2 arg)
      | CMD_CHUP \<Rightarrow> True
      | CMD_CHDN \<Rightarrow> True
      | CMD_CC \<Rightarrow> True)"

text \<open>
  The state at the start of \<^verbatim>\<open>main\<close>: the two options, and what the device will answer;
  the port can be opened and nothing has been written or printed.
\<close>

definition started :: "bool \<Rightarrow> bool \<Rightarrow> string list \<Rightarrow> world" where
  "started n v replies =
     \<lparr>nosend = n, verbose = v, open_error = None, fd_open = False, incoming = replies,
      written = [], stdout = [], stderr = [], overrun = False\<rparr>"

subsection \<open>A number in a fixed count of digits\<close>

text \<open>
  What the specification calls a value zero-padded to k digits: the last k decimal
  digits of the number, the leading ones being 0 when the number is short. The
  parameters that \<^verbatim>\<open>sprintf\<close> formats are compared with it below.
\<close>

primrec zero_padded :: "nat \<Rightarrow> nat \<Rightarrow> string" where
  "zero_padded 0 n = []"
| "zero_padded (Suc k) n = zero_padded k (n div 10) @ [digit_char (n mod 10)]"

section \<open>Properties\<close>

subsection \<open>Reading back what printf writes\<close>

lemma of_char_digit_char: "k < 10 \<Longrightarrow> (of_char (digit_char k) :: nat) = 48 + k"
  by (simp add: digit_char_def)

lemma isdigit_digit_char: "k < 10 \<Longrightarrow> isdigit (digit_char k)"
  by (simp add: isdigit_def of_char_digit_char)

lemma digit_val_digit_char: "k < 10 \<Longrightarrow> digit_val (digit_char k) = int k"
  by (simp add: digit_val_def of_char_digit_char)

lemma not_isspace_digit: "isdigit c \<Longrightarrow> \<not> isspace c"
  by (auto simp add: isdigit_def isspace_def)

lemma not_sign_digit: "isdigit c \<Longrightarrow> c \<noteq> CHR ''-'' \<and> c \<noteq> CHR ''+''"
  by (auto simp add: isdigit_def)

lemma utoa_digits: "c \<in> set (utoa n) \<Longrightarrow> isdigit c"
proof (induction n rule: utoa.induct)
  case (1 n)
  show ?case
  proof (cases "n < 10")
    case True
    with "1.prems" show ?thesis
      by (simp add: utoa.simps [of n] isdigit_digit_char)
  next
    case False
    with "1.prems" "1.IH" show ?thesis
      by (auto simp add: utoa.simps [of n] isdigit_digit_char)
  qed
qed

lemma utoa_not_Nil: "utoa n \<noteq> []"
  by (subst utoa.simps) simp

lemma dec_value_snoc: "dec_value (ds @ [c]) = 10 * dec_value ds + digit_val c"
  by (simp add: dec_value_def)

lemma dec_value_utoa: "dec_value (utoa n) = int n"
proof (induction n rule: utoa.induct)
  case (1 n)
  show ?case
  proof (cases "n < 10")
    case True
    then show ?thesis
      by (simp add: utoa.simps [of n] dec_value_def digit_val_digit_char)
  next
    case False
    with "1.IH" show ?thesis
      by (simp add: utoa.simps [of n] dec_value_snoc digit_val_digit_char zdiv_int zmod_int)
  qed
qed

lemma int_of_long_clamp: "- (2 ^ 31) \<le> v \<Longrightarrow> v < 2 ^ 31 \<Longrightarrow> int_of_long (long_clamp v) = v"
proof -
  assume lo: "- (2 ^ 31) \<le> v" and hi: "v < 2 ^ 31"
  then have "long_clamp v = v"
    by (simp add: long_clamp_def)
  moreover have "signed_take_bit 31 v = v"
    using lo hi by (rule signed_take_bit_int_eq_self)
  ultimately show ?thesis
    by (simp add: int_of_long_def sint_sbintrunc')
qed

lemma takeWhile_isdigit_utoa: "takeWhile isdigit (utoa n) = utoa n"
  by (simp add: takeWhile_eq_all_conv utoa_digits)

lemma takeWhile_digits_utoa:
  "rest = [] \<or> isdigit (hd rest) = False \<Longrightarrow> takeWhile isdigit (utoa n @ rest) = utoa n"
  by (cases rest) (auto simp add: takeWhile_append utoa_digits)

lemma dropWhile_digits_utoa:
  "rest = [] \<or> isdigit (hd rest) = False \<Longrightarrow> dropWhile isdigit (utoa n @ rest) = rest"
  by (cases rest) (auto simp add: dropWhile_append utoa_digits)

lemma utoa_Cons: "\<exists>d ds. utoa n = d # ds \<and> isdigit d"
proof (cases "utoa n")
  case Nil
  then show ?thesis by (simp add: utoa_not_Nil)
next
  case (Cons d ds)
  then have "d \<in> set (utoa n)" by simp
  then have "isdigit d" by (rule utoa_digits)
  with Cons show ?thesis by simp
qed

lemma sign_split_utoa: "sign_split (dropWhile isspace (utoa n @ rest)) = (False, utoa n @ rest)"
proof -
  obtain d ds where u: "utoa n = d # ds" and d: "isdigit d"
    using utoa_Cons by blast
  show ?thesis
    using not_isspace_digit [OF d] not_sign_digit [OF d] by (simp add: u)
qed

lemma c_int_utoa: "n < 2 ^ 31 \<Longrightarrow> c_int False (utoa n) = int n"
  by (simp add: c_int_def dec_value_utoa int_of_long_clamp)

lemma c_int_neg_utoa: "n \<le> 2 ^ 31 \<Longrightarrow> c_int True (utoa n) = - int n"
  by (simp add: c_int_def dec_value_utoa int_of_long_clamp)

lemma atoi_utoa:
  "n < 2 ^ 31 \<Longrightarrow> rest = [] \<or> isdigit (hd rest) = False \<Longrightarrow> atoi (utoa n @ rest) = int n"
  by (simp add: atoi_def sign_split_utoa takeWhile_digits_utoa c_int_utoa)

lemma scan_d_utoa:
  "n < 2 ^ 31 \<Longrightarrow> rest = [] \<or> isdigit (hd rest) = False \<Longrightarrow>
   scan_d (utoa n @ rest) = Some (int n, rest)"
  by (simp add: scan_d_def sign_split_utoa takeWhile_digits_utoa dropWhile_digits_utoa
      c_int_utoa utoa_not_Nil)

lemma atoi_minus_utoa: "n \<le> 2 ^ 31 \<Longrightarrow> atoi (CHR ''-'' # utoa n) = - int n"
  by (simp add: atoi_def isspace_def c_int_neg_utoa takeWhile_isdigit_utoa)

lemma sprintf_0d_0:
  "sprintf_0d 0 v = (if v < 0 then CHR ''-'' # utoa (nat (- v)) else utoa (nat v))"
  by (simp add: sprintf_0d_def Let_def)

lemma atoi_sprintf_d: "- (2 ^ 31) \<le> v \<Longrightarrow> v < 2 ^ 31 \<Longrightarrow> atoi (sprintf_0d 0 v) = v"
  using atoi_utoa [of "nat v" "[]"] atoi_minus_utoa [of "nat (- v)"]
  by (simp add: sprintf_0d_0)

subsection \<open>The switch\<close>

lemmas case_defs =
  case_POENABLE_def case_POWER_def case_INPUT_def case_AVMODE_def case_VOLUME_def
  case_HPOS_def case_VPOS_def case_CLOCK_def case_PHASE_def case_VIEWMODE_def
  case_MUTE_def case_SURROUND_def case_AUDIOSEL_def case_SLEEP_def case_ACHAN_def
  case_DCHAN_def case_DCABL1_def case_DCABL2_def case_CHUP_def case_CHDN_def case_CC_def





text \<open>\<^verbatim>\<open>main\<close> with the copies of the operands and the verbose line done.\<close>

lemma main_unfold:
  "main progname port argv w =
     (let w2 = store 16 (operand argv 2) (store 16 (operand argv 1) (store 16 (operand argv 0)
                 (if verbose w then printf (''port='' @ port @ [NL]) w else w)))
      in discard_then (if nosend w2 then Val () w2 else openport port w2)
           (\<lambda>w3. discard_then
                   (main_switch (checkcmd (operand argv 0)) progname (operand argv 0)
                      (operand argv 1) (operand argv 2) w3)
                   (\<lambda>w4. Val EXIT_SUCCESS (close_fd w4))))"
  by (simp add: main_def Let_def)


subsection \<open>The start of main\<close>






subsection \<open>Unknown commands and refused arguments\<close>



subsection \<open>The no-send mode\<close>

lemma sendcommand_nosend:
  "nosend w \<Longrightarrow>
   sendcommand command parameter w =
     Val EXIT_SUCCESS
       (printf (''command='' @ [CHR 0x27] @ command @ [CHR 0x27] @ '', parameter='' @
                [CHR 0x27] @ parameter @ [CHR 0x27] @ [NL]) w)"
  by (simp add: sendcommand_def printf_def)

lemma main_switch_nosend:
  "nosend w \<Longrightarrow>
   \<exists>w'. (main_switch c progname oparg arg arg2 w = Val () w' \<or>
         main_switch c progname oparg arg arg2 w = Exit EXIT_FAILURE w') \<and>
        written w' = written w \<and> incoming w' = incoming w"
  by (cases c)
    (simp_all add: main_switch_def case_defs sendcommand_nosend invalid_parameter_def
      printf_def store_def fprintf_stderr_def Let_def split: option.splits prod.splits)

text \<open>
  Claim C8. With \<^verbatim>\<open>-n\<close>, \<^verbatim>\<open>sendcommand\<close> prints the command and the parameter it was
  given and returns \<^verbatim>\<open>EXIT_SUCCESS\<close> without a \<^verbatim>\<open>write\<close>; and whatever the
  command line is, \<^verbatim>\<open>main\<close> ends with nothing written to the port and nothing read
  from it.
\<close>

theorem dry_run_never_writes:
  assumes "nosend w"
  shows "sendcommand command parameter w =
           Val EXIT_SUCCESS
             (printf (''command='' @ [CHR 0x27] @ command @ [CHR 0x27] @ '', parameter='' @
                      [CHR 0x27] @ parameter @ [CHR 0x27] @ [NL]) w) \<and>
         (\<exists>st w'. (main progname port argv w = Val st w' \<or>
                   main progname port argv w = Exit st w') \<and>
                  written w' = written w \<and> incoming w' = incoming w)"
proof
  show "sendcommand command parameter w =
           Val EXIT_SUCCESS
             (printf (''command='' @ [CHR 0x27] @ command @ [CHR 0x27] @ '', parameter='' @
                      [CHR 0x27] @ parameter @ [CHR 0x27] @ [NL]) w)"
    using assms by (rule sendcommand_nosend)
next
  define w2 where "w2 = store 16 (operand argv 2) (store 16 (operand argv 1)
     (store 16 (operand argv 0) (if verbose w then printf (''port='' @ port @ [NL]) w else w)))"
  have w2: "written w2 = written w" "incoming w2 = incoming w" "nosend w2"
    using assms by (simp_all add: w2_def store_def printf_def)
  obtain w' where sw: "main_switch (checkcmd (operand argv 0)) progname (operand argv 0)
         (operand argv 1) (operand argv 2) w2 = Val () w' \<or>
       main_switch (checkcmd (operand argv 0)) progname (operand argv 0)
         (operand argv 1) (operand argv 2) w2 = Exit EXIT_FAILURE w'"
    and same: "written w' = written w2" "incoming w' = incoming w2"
    using main_switch_nosend [OF w2(3)] by blast
  have m: "main progname port argv w =
     discard_then (main_switch (checkcmd (operand argv 0)) progname (operand argv 0)
                (operand argv 1) (operand argv 2) w2) (\<lambda>w4. Val EXIT_SUCCESS (close_fd w4))"
    using w2(3) by (simp add: main_unfold Let_def w2_def)
  from sw have "main progname port argv w = Val EXIT_SUCCESS (close_fd w') \<or>
      main progname port argv w = Exit EXIT_FAILURE w'"
    by (auto simp add: m)
  moreover have "written (close_fd w') = written w'" "incoming (close_fd w') = incoming w'"
    by (simp_all add: close_fd_def)
  ultimately show "\<exists>st w'. (main progname port argv w = Val st w' \<or>
                   main progname port argv w = Exit st w') \<and>
                  written w' = written w \<and> incoming w' = incoming w"
    using same w2 by auto
qed

theorem dry_run_never_writes_witness:
  "nosend (started True False []) \<and>
   sendcommand ''VOLM'' ''10  '' (started True False []) =
     Val EXIT_SUCCESS
       ((started True False [])\<lparr>stdout := [''command='' @ [CHR 0x27] @ ''VOLM'' @ [CHR 0x27] @
          '', parameter='' @ [CHR 0x27] @ ''10  '' @ [CHR 0x27] @ [NL]]\<rparr>) \<and>
   (\<exists>st w'. (main ''aquosctl'' ''/dev/ttyS0'' [''vol'', ''10''] (started True False []) = Val st w' \<or>
             main ''aquosctl'' ''/dev/ttyS0'' [''vol'', ''10''] (started True False []) = Exit st w') \<and>
            written w' = [] \<and> incoming w' = [])"
proof -
  have h: "nosend (started True False [])"
    by (simp add: started_def)
  show ?thesis
    using h dry_run_never_writes [OF h, of "''VOLM''" "''10  ''" "''aquosctl''" "''/dev/ttyS0''"
        "[''vol'', ''10'']"]
    by (simp add: started_def printf_def)
qed

subsection \<open>The reply\<close>

lemma read_loop_chunks:
  assumes "\<forall>c\<in>set chunks. c \<noteq> [] \<and> last c \<noteq> NL \<and> last c \<noteq> CR"
    and "fin \<noteq> []" and "last fin = NL \<or> last fin = CR"
    and "length buf + length (concat chunks) + length fin \<le> 254"
  shows "read_loop buf (chunks @ fin # rest) = Some (buf @ concat chunks @ fin, rest)"
  using assms
proof (induction chunks arbitrary: buf)
  case Nil
  then show ?case
    by (cases fin) (auto simp add: Let_def)
next
  case (Cons c chunks)
  from Cons.prems have c: "c \<noteq> []" "last c \<noteq> NL" "last c \<noteq> CR"
    and room: "length c < 254 - length buf"
    by (cases fin; simp)+
  have rest: "read_loop (buf @ c) (chunks @ fin # rest) =
      Some ((buf @ c) @ concat chunks @ fin, rest)"
    using Cons.prems by (intro Cons.IH) simp_all
  from c room rest show ?case
    by (simp add: Let_def)
qed

lemma cstr_no_NUL: "NUL \<notin> set s \<Longrightarrow> cstr s = s"
  by (auto simp add: cstr_def takeWhile_eq_all_conv)

text \<open>
  Claim C3. Let the device answer with \<open>content\<close> followed by a carriage return or a
  newline, in one \<^verbatim>\<open>read\<close> or in several pieces none of which ends in such a byte
  before the last does, the content without NUL and short enough for the buffer. Then
  \<^verbatim>\<open>sendcommand\<close> decides on the content alone, the last byte being cut off: it
  returns \<^verbatim>\<open>EXIT_SUCCESS\<close> when the content begins with \<open>OK\<close>; it returns
  \<^verbatim>\<open>EXIT_FAILURE\<close> after the line \<open>Error: command/param\<close> when it begins with
  \<open>ERR\<close>; otherwise it returns \<^verbatim>\<open>EXIT_FAILURE\<close> after the line
  \<open>Error: unexpected response\<close>, which quotes exactly the content.
\<close>

theorem reply_classification:
  assumes "\<not> nosend w"
    and "incoming w = chunks @ (fin @ [t]) # rest"
    and "\<forall>c\<in>set chunks. c \<noteq> [] \<and> last c \<noteq> NL \<and> last c \<noteq> CR"
    and "t = CR \<or> t = NL"
    and "content = concat chunks @ fin"
    and "length content < 254"
    and "NUL \<notin> set content"
  shows "sendcommand command parameter w =
     (let w1 = (if verbose w
                then printf (''command='' @ [CHR 0x27] @ command @ [CHR 0x27] @
                             '', parameter='' @ [CHR 0x27] @ parameter @ [CHR 0x27] @ [NL]) w
                else w);
          w3 = (write_fd [CR] (write_fd parameter (write_fd command w1)))\<lparr>incoming := rest\<rparr>
      in if take 2 content = ''OK'' then
           Val EXIT_SUCCESS (if verbose w then printf (''Success.'' @ [NL]) w3 else w3)
         else if take 3 content = ''ERR'' then
           Val EXIT_FAILURE
             (fprintf_stderr
                (''Error: command/param '' @ [CHR 0x27] @ command @ parameter @
                 [CHR 0x27] @ [NL]) w3)
         else
           Val EXIT_FAILURE
             (fprintf_stderr
                (''Error: unexpected response '' @ [CHR 0x27] @ content @ [CHR 0x27] @
                 '' to command/param '' @ [CHR 0x27] @ command @ parameter @
                 [CHR 0x27] @ [NL]) w3))"
proof -
  have "read_loop [] (chunks @ (fin @ [t]) # rest) = Some ([] @ concat chunks @ (fin @ [t]), rest)"
    using assms(3-6) by (intro read_loop_chunks) auto
  then have rl: "read_loop [] (incoming w) = Some (content @ [t], rest)"
    by (simp add: assms(2,5))
  have cs: "cstr (butlast (content @ [t])) = content"
    using assms(7) by (simp add: cstr_no_NUL)
  show ?thesis
    using assms(1) rl cs
    by (simp add: sendcommand_def Let_def strncmp_eq_def write_fd_def printf_def)
qed

theorem reply_classification_witness:
  "sendcommand ''POWR'' ''1   '' (started False False [''GARB'', ''LED'' @ [CR]]) =
     Val EXIT_FAILURE
       ((started False False [])
          \<lparr>written := [''POWR'', ''1   '', [CR]],
           stderr := [''Error: unexpected response '' @ [CHR 0x27] @ ''GARBLED'' @ [CHR 0x27] @
                      '' to command/param '' @ [CHR 0x27] @ ''POWR1   '' @ [CHR 0x27] @ [NL]]\<rparr>) \<and>
   sendcommand ''POWR'' ''1   '' (started False False [''ERR'' @ [CR]]) =
     Val EXIT_FAILURE
       ((started False False [])
          \<lparr>written := [''POWR'', ''1   '', [CR]],
           stderr := [''Error: command/param '' @ [CHR 0x27] @ ''POWR1   '' @ [CHR 0x27] @ [NL]]\<rparr>) \<and>
   sendcommand ''POWR'' ''1   '' (started False False [''OK'' @ [NL]]) =
     Val EXIT_SUCCESS ((started False False [])\<lparr>written := [''POWR'', ''1   '', [CR]]\<rparr>)"
  using
    reply_classification [of "started False False [''GARB'', ''LED'' @ [CR]]" "[''GARB'']"
      "''LED''" CR "[]" "''GARBLED''" "''POWR''" "''1   ''"]
    reply_classification [of "started False False [''ERR'' @ [CR]]" "[]"
      "''ERR''" CR "[]" "''ERR''" "''POWR''" "''1   ''"]
    reply_classification [of "started False False [''OK'' @ [NL]]" "[]"
      "''OK''" NL "[]" "''OK''" "''POWR''" "''1   ''"]
  by (simp add: started_def NUL_def CR_def NL_def write_fd_def fprintf_stderr_def)

subsection \<open>What main does with the value sendcommand returns\<close>

text \<open>
  Whenever \<^verbatim>\<open>main\<close> gets to its last statement the status is \<^verbatim>\<open>EXIT_SUCCESS\<close>: no reply
  and no value returned by \<^verbatim>\<open>sendcommand\<close> has a part in it.
\<close>

lemma discard_then_Val:
  "discard_then r k = Val v w' \<Longrightarrow> \<exists>u w1. r = Val u w1 \<and> k w1 = Val v w'"
  by (cases r) auto

lemma main_returns_success:
  assumes "main progname port argv w = Val st w'"
  shows "st = EXIT_SUCCESS"
proof -
  from assms obtain u w1 where
    "discard_then
       (main_switch (checkcmd (operand argv 0)) progname (operand argv 0) (operand argv 1)
          (operand argv 2) w1)
       (\<lambda>w4. Val EXIT_SUCCESS (close_fd w4)) = Val st w'"
    unfolding main_unfold Let_def by (blast dest: discard_then_Val)
  then show ?thesis
    by (auto dest: discard_then_Val)
qed

text \<open>
  Claim C1. The claim asks for a failure status whenever a reply is an error or is not
  understood. Run on \<^verbatim>\<open>power on\<close> with the device answering \<open>ERR\<close>:
  \<^verbatim>\<open>sendcommand\<close> prints the error and returns \<^verbatim>\<open>EXIT_FAILURE\<close>, \<^verbatim>\<open>main\<close> does not
  look at that value and returns \<^verbatim>\<open>EXIT_SUCCESS\<close>. The same happens with the answer
  \<open>GARBLED\<close>.
\<close>

theorem error_reply_exits_with_success:
  "sendcommand ''POWR'' ''1   '' (started False False [''ERR'' @ [CR]]) =
     Val EXIT_FAILURE
       ((started False False [])
          \<lparr>written := [''POWR'', ''1   '', [CR]],
           stderr := [''Error: command/param '' @ [CHR 0x27] @ ''POWR1   '' @ [CHR 0x27] @ [NL]]\<rparr>) \<and>
   main ''aquosctl'' ''/dev/ttyS0'' [''power'', ''on''] (started False False [''ERR'' @ [CR]]) =
     Val EXIT_SUCCESS
       ((started False False [])
          \<lparr>written := [''POWR'', ''1   '', [CR]],
           stderr := [''Error: command/param '' @ [CHR 0x27] @ ''POWR1   '' @ [CHR 0x27] @ [NL]]\<rparr>) \<and>
   main ''aquosctl'' ''/dev/ttyS0'' [''power'', ''on''] (started False False [''GARBLED'' @ [CR]]) =
     Val EXIT_SUCCESS
       ((started False False [])
          \<lparr>written := [''POWR'', ''1   '', [CR]],
           stderr := [''Error: unexpected response '' @ [CHR 0x27] @ ''GARBLED'' @ [CHR 0x27] @
                      '' to command/param '' @ [CHR 0x27] @ ''POWR1   '' @ [CHR 0x27] @ [NL]]\<rparr>)"
  by code_simp

text \<open>
  Claim C2. The claim says that \<^verbatim>\<open>DC2L\<close> is not transmitted when the reply to
  \<^verbatim>\<open>DC2U\<close> is an error. Run on \<^verbatim>\<open>dcabl1 5.12\<close> with the device answering \<open>ERR\<close>
  to the first frame: both frames are written, the second after the error was printed.
\<close>

theorem dcabl1_second_frame_after_error:
  "main ''aquosctl'' ''/dev/ttyS0'' [''dcabl1'', ''5.12'']
       (started False False [''ERR'' @ [CR], ''OK'' @ [CR]]) =
     Val EXIT_SUCCESS
       ((started False False [])
          \<lparr>written := [''DC2U'', ''005 '', [CR], ''DC2L'', ''012 '', [CR]],
           stderr := [''Error: command/param '' @ [CHR 0x27] @ ''DC2U005 '' @ [CHR 0x27] @ [NL]]\<rparr>)"
  by code_simp

text \<open>
  Claim C6. The claim says that every accepted argument gives a frame of 9 bytes. Run on
  \<^verbatim>\<open>vol 00060\<close>: the argument is accepted (\<^verbatim>\<open>atoi\<close> reads 60), \<^verbatim>\<open>"%-4s"\<close> does not
  shorten it, the six bytes of the result do not fit \<^verbatim>\<open>param[5]\<close>, and the frame that
  is written has 10 bytes.
\<close>

theorem long_argument_frame_length:
  "accepted (checkcmd ''vol'') ''00060'' '''' \<and>
   main ''aquosctl'' ''/dev/ttyS0'' [''vol'', ''00060''] (started False False [''OK'' @ [CR]]) =
     Val EXIT_SUCCESS
       ((started False False [])
          \<lparr>written := [''VOLM'', ''00060'', [CR]], overrun := True\<rparr>) \<and>
   length (concat [''VOLM'', ''00060'', [CR]]) = 10"
  by code_simp

subsection \<open>Fixed-width numbers\<close>

lemma digit_char_simps:
  "digit_char 0 = CHR ''0''" "digit_char 1 = CHR ''1''" "digit_char 2 = CHR ''2''"
  "digit_char 3 = CHR ''3''" "digit_char 4 = CHR ''4''" "digit_char 5 = CHR ''5''"
  "digit_char 6 = CHR ''6''" "digit_char 7 = CHR ''7''" "digit_char 8 = CHR ''8''"
  "digit_char 9 = CHR ''9''"
  by code_simp+

lemma zero_padded_2: "zero_padded 2 n = [digit_char (n div 10 mod 10), digit_char (n mod 10)]"
  unfolding numeral_2_eq_2 by simp

lemma zero_padded_3:
  "zero_padded 3 n =
     [digit_char (n div 100 mod 10), digit_char (n div 10 mod 10), digit_char (n mod 10)]"
  unfolding numeral_3_eq_3 by (simp add: div_mult2_eq [symmetric])

lemma zero_padded_4:
  "zero_padded 4 n =
     [digit_char (n div 1000 mod 10), digit_char (n div 100 mod 10),
      digit_char (n div 10 mod 10), digit_char (n mod 10)]"
proof -
  have e: "(4::nat) = Suc 3"
    by simp
  show ?thesis
    unfolding e zero_padded.simps(2) zero_padded_3
    by (simp add: div_mult2_eq [symmetric])
qed

lemma zero_padded_0: "zero_padded k 0 = replicate k CHR ''0''"
  by (induction k) (simp_all add: digit_char_simps replicate_append_same)

lemma length_utoa_snoc:
  "10 \<le> n \<Longrightarrow> utoa n = utoa (n div 10) @ [digit_char (n mod 10)]"
  by (subst utoa.simps) simp

lemma utoa_small: "n < 10 \<Longrightarrow> utoa n = [digit_char n]"
  by (subst utoa.simps) simp

lemma pad_utoa:
  "0 < k \<Longrightarrow> n < 10 ^ k \<Longrightarrow> replicate (k - length (utoa n)) CHR ''0'' @ utoa n = zero_padded k n"
proof (induction k arbitrary: n)
  case 0
  then show ?case by simp
next
  case (Suc k)
  show ?case
  proof (cases "n < 10")
    case True
    then show ?thesis
      by (simp add: utoa_small zero_padded_0)
  next
    case False
    then have u: "utoa n = utoa (n div 10) @ [digit_char (n mod 10)]"
      by (simp add: length_utoa_snoc)
    from Suc.prems have "n div 10 < 10 ^ k"
      by (simp add: less_mult_imp_div_less mult.commute)
    moreover from False Suc.prems have "0 < k"
      by (cases k) simp_all
    ultimately have "replicate (k - length (utoa (n div 10))) CHR ''0'' @ utoa (n div 10) =
        zero_padded k (n div 10)"
      by (intro Suc.IH)
    then show ?thesis
      by (simp add: u)
  qed
qed

lemma sprintf_0d_zero_padded:
  "0 < k \<Longrightarrow> 0 \<le> v \<Longrightarrow> v < 10 ^ k \<Longrightarrow> sprintf_0d k v = zero_padded k (nat v)"
proof -
  assume k: "0 < k" and v: "0 \<le> v" "v < 10 ^ k"
  then have "nat v < 10 ^ k"
    by (simp add: nat_less_iff)
  with k have "replicate (k - length (utoa (nat v))) CHR ''0'' @ utoa (nat v) = zero_padded k (nat v)"
    by (rule pad_utoa)
  with v show ?thesis
    by (simp add: sprintf_0d_def Let_def)
qed

lemma length_zero_padded: "length (zero_padded k n) = k"
  by (induction k arbitrary: n) simp_all

lemma store_fits: "length s < n \<Longrightarrow> store n s w = w"
  by (simp add: store_def)

subsection \<open>dcabl2\<close>

text \<open>
  Claim C4. Let v be the number \<^verbatim>\<open>atoi\<close> reads from the argument of \<^verbatim>\<open>dcabl2\<close>. For v from
  0 to 9999 the command \<^verbatim>\<open>DC10\<close> is sent with v in four digits, for v from 10000 to 16383
  the command \<^verbatim>\<open>DC11\<close> with v - 10000 in four digits; for any other v the argument is
  refused and \<^verbatim>\<open>sendcommand\<close> is not called. So 9999 gives \<^verbatim>\<open>DC10\<close> with \<open>9999\<close>, 10000
  gives \<^verbatim>\<open>DC11\<close> with \<open>0000\<close>, 16383 gives \<^verbatim>\<open>DC11\<close> with \<open>6383\<close>, and 16384 is
  refused.
\<close>

theorem dcabl2_split_range:
  assumes "atoi arg = v"
  shows "(0 \<le> v \<and> v \<le> 9999 \<longrightarrow>
            main_switch CMD_DCABL2 progname oparg arg arg2 w =
              discard_then (sendcommand ''DC10'' (zero_padded 4 (nat v)) w) (Val ())) \<and>
         (10000 \<le> v \<and> v \<le> 16383 \<longrightarrow>
            main_switch CMD_DCABL2 progname oparg arg arg2 w =
              discard_then (sendcommand ''DC11'' (zero_padded 4 (nat (v - 10000))) w) (Val ())) \<and>
         (v < 0 \<or> 16383 < v \<longrightarrow>
            main_switch CMD_DCABL2 progname oparg arg arg2 w =
              invalid_parameter progname arg oparg w)"
proof (intro conjI impI)
  assume r: "0 \<le> v \<and> v \<le> 9999"
  then have "sprintf_0d 4 v = zero_padded 4 (nat v)"
    by (intro sprintf_0d_zero_padded) simp_all
  with r assms show "main_switch CMD_DCABL2 progname oparg arg arg2 w =
      discard_then (sendcommand ''DC10'' (zero_padded 4 (nat v)) w) (Val ())"
    by (simp add: main_switch_def case_DCABL2_def frame_DCABL2_def store_fits
        length_zero_padded)
next
  assume r: "10000 \<le> v \<and> v \<le> 16383"
  then have "sprintf_0d 4 (v - 10000) = zero_padded 4 (nat (v - 10000))"
    by (intro sprintf_0d_zero_padded) simp_all
  with r assms show "main_switch CMD_DCABL2 progname oparg arg arg2 w =
      discard_then (sendcommand ''DC11'' (zero_padded 4 (nat (v - 10000))) w) (Val ())"
    by (simp add: main_switch_def case_DCABL2_def frame_DCABL2_def store_fits
        length_zero_padded)
next
  assume "v < 0 \<or> 16383 < v"
  with assms show "main_switch CMD_DCABL2 progname oparg arg arg2 w =
      invalid_parameter progname arg oparg w"
    by (auto simp add: main_switch_def case_DCABL2_def frame_DCABL2_def)
qed

theorem dcabl2_split_range_witness:
  "main_switch CMD_DCABL2 ''aquosctl'' ''dcabl2'' ''9999'' '''' (started True False []) =
     discard_then (sendcommand ''DC10'' ''9999'' (started True False [])) (Val ()) \<and>
   main_switch CMD_DCABL2 ''aquosctl'' ''dcabl2'' ''10000'' '''' (started True False []) =
     discard_then (sendcommand ''DC11'' ''0000'' (started True False [])) (Val ()) \<and>
   main_switch CMD_DCABL2 ''aquosctl'' ''dcabl2'' ''16383'' '''' (started True False []) =
     discard_then (sendcommand ''DC11'' ''6383'' (started True False [])) (Val ()) \<and>
   main_switch CMD_DCABL2 ''aquosctl'' ''dcabl2'' ''16384'' '''' (started True False []) =
     invalid_parameter ''aquosctl'' ''16384'' ''dcabl2'' (started True False [])"
proof -
  have a: "atoi ''9999'' = 9999" "atoi ''10000'' = 10000" "atoi ''16383'' = 16383"
    "atoi ''16384'' = 16384"
    by code_simp+
  have z: "zero_padded 4 9999 = ''9999''" "zero_padded 4 0 = ''0000''"
    "zero_padded 4 6383 = ''6383''"
    by (simp_all add: zero_padded_4 digit_char_simps)
  show ?thesis
    using dcabl2_split_range [OF a(1), of "''aquosctl''" "''dcabl2''" "''''" "started True False []"]
      dcabl2_split_range [OF a(2), of "''aquosctl''" "''dcabl2''" "''''" "started True False []"]
      dcabl2_split_range [OF a(3), of "''aquosctl''" "''dcabl2''" "''''" "started True False []"]
      dcabl2_split_range [OF a(4), of "''aquosctl''" "''dcabl2''" "''''" "started True False []"]
    by (simp add: z)
qed

subsection \<open>A frame on the port\<close>

lemma length_utoa: "0 < k \<Longrightarrow> n < 10 ^ k \<Longrightarrow> length (utoa n) \<le> k"
proof (induction k arbitrary: n)
  case 0
  then show ?case
    by simp
next
  case (Suc k)
  show ?case
  proof (cases "n < 10")
    case True
    then show ?thesis
      by (simp add: utoa_small)
  next
    case False
    then have k: "0 < k"
      using Suc.prems(2) by (cases k) simp_all
    from Suc.prems(2) have "n div 10 < 10 ^ k"
      by (simp add: less_mult_imp_div_less mult.commute)
    with k have "length (utoa (n div 10)) \<le> k"
      by (rule Suc.IH)
    with False show ?thesis
      by (simp add: length_utoa_snoc)
  qed
qed

lemma checkcmd_dchan: "checkcmd ''dchan'' = CMD_DCHAN"
  by (simp add: checkcmd_def cmdtab_def)

lemma checkcmd_dcabl1: "checkcmd ''dcabl1'' = CMD_DCABL1"
  by (simp add: checkcmd_def cmdtab_def)

lemma main_live:
  assumes "nosend w = False" and "open_error w = None"
    and "length name < 16" and "length arg < 16"
  shows "\<exists>w3. main progname port [name, arg] w =
       discard_then (main_switch (checkcmd name) progname name arg '''' w3)
         (\<lambda>w4. Val EXIT_SUCCESS (close_fd w4)) \<and>
     nosend w3 = False \<and> written w3 = written w \<and> incoming w3 = incoming w \<and>
     overrun w3 = overrun w"
proof -
  define w3 where
    "w3 = (if verbose w then printf (''port='' @ port @ [NL]) w else w)\<lparr>fd_open := True\<rparr>"
  have "main progname port [name, arg] w =
       discard_then (main_switch (checkcmd name) progname name arg '''' w3)
         (\<lambda>w4. Val EXIT_SUCCESS (close_fd w4))"
    using assms
    by (simp add: main_unfold operand_def Let_def store_def openport_def printf_def w3_def)
  moreover have "nosend w3 = False" "written w3 = written w" "incoming w3 = incoming w"
    "overrun w3 = overrun w"
    using assms(1) by (simp_all add: w3_def printf_def)
  ultimately show ?thesis
    by blast
qed

text \<open>
  When the case of the switch is one call of \<^verbatim>\<open>sendcommand\<close> and that call writes its
  frame and returns, the frame is what \<^verbatim>\<open>main\<close> writes; likewise for two calls.
\<close>

lemma main_one_frame:
  assumes "nosend w = False" and "open_error w = None"
    and "length name < 16" and "length arg < 16"
    and "\<And>w3. main_switch (checkcmd name) progname name arg '''' w3 =
           discard_then (sendcommand command parameter (store 5 parameter w3)) (Val ())"
    and "\<And>w3. nosend w3 = False \<Longrightarrow> incoming w3 = incoming w \<Longrightarrow>
           \<exists>r w4. sendcommand command parameter w3 = Val r w4 \<and>
             written w4 = written w3 @ [command, parameter, [CR]] \<and> incoming w4 = left \<and>
             nosend w4 = False \<and> overrun w4 = overrun w3"
  shows "\<exists>w'. main progname port [name, arg] w = Val EXIT_SUCCESS w' \<and>
     written w' = written w @ [command, parameter, [CR]] \<and> incoming w' = left \<and>
     overrun w' = (overrun w \<or> 5 \<le> length parameter)"
proof -
  obtain w3 where m: "main progname port [name, arg] w =
       discard_then (main_switch (checkcmd name) progname name arg '''' w3)
         (\<lambda>w4. Val EXIT_SUCCESS (close_fd w4))"
    and w3: "nosend w3 = False" "written w3 = written w" "incoming w3 = incoming w"
      "overrun w3 = overrun w"
    using main_live [OF assms(1-4)] by blast
  define w3' where "w3' = store 5 parameter w3"
  have w3': "nosend w3' = False" "incoming w3' = incoming w"
    "written w3' = written w" "overrun w3' = (overrun w \<or> 5 \<le> length parameter)"
    using w3 by (simp_all add: w3'_def store_def)
  obtain r w4 where s: "sendcommand command parameter w3' = Val r w4"
    and w4: "written w4 = written w3' @ [command, parameter, [CR]]" "incoming w4 = left"
      "overrun w4 = overrun w3'"
    using assms(6) [OF w3'(1,2)] by blast
  have "main progname port [name, arg] w = Val EXIT_SUCCESS (close_fd w4)"
    by (simp add: m assms(5) s [unfolded w3'_def])
  moreover have "written (close_fd w4) = written w @ [command, parameter, [CR]]"
    "incoming (close_fd w4) = left"
    "overrun (close_fd w4) = (overrun w \<or> 5 \<le> length parameter)"
    using w4 w3' by (simp_all add: close_fd_def)
  ultimately show ?thesis
    by blast
qed

lemma main_two_frames:
  assumes "nosend w = False" and "open_error w = None"
    and "length name < 16" and "length arg < 16"
    and "\<And>w3. main_switch (checkcmd name) progname name arg '''' w3 =
           discard_then (sendcommand command parameter (store 5 parameter w3))
             (\<lambda>w'. discard_then (sendcommand command' parameter' (store 5 parameter' w'))
                (Val ()))"
    and "\<And>w3. nosend w3 = False \<Longrightarrow> incoming w3 = incoming w \<Longrightarrow>
           \<exists>r w4. sendcommand command parameter w3 = Val r w4 \<and>
             written w4 = written w3 @ [command, parameter, [CR]] \<and> incoming w4 = left \<and>
             nosend w4 = False \<and> overrun w4 = overrun w3"
    and "\<And>w3. nosend w3 = False \<Longrightarrow> incoming w3 = left \<Longrightarrow>
           \<exists>r w4. sendcommand command' parameter' w3 = Val r w4 \<and>
             written w4 = written w3 @ [command', parameter', [CR]] \<and> incoming w4 = left' \<and>
             nosend w4 = False \<and> overrun w4 = overrun w3"
  shows "\<exists>w'. main progname port [name, arg] w = Val EXIT_SUCCESS w' \<and>
     written w' = written w @ [command, parameter, [CR], command', parameter', [CR]] \<and>
     incoming w' = left' \<and>
     overrun w' = (overrun w \<or> 5 \<le> length parameter \<or> 5 \<le> length parameter')"
proof -
  obtain w3 where m: "main progname port [name, arg] w =
       discard_then (main_switch (checkcmd name) progname name arg '''' w3)
         (\<lambda>w4. Val EXIT_SUCCESS (close_fd w4))"
    and w3: "nosend w3 = False" "written w3 = written w" "incoming w3 = incoming w"
      "overrun w3 = overrun w"
    using main_live [OF assms(1-4)] by blast
  define w3' where "w3' = store 5 parameter w3"
  have w3': "nosend w3' = False" "incoming w3' = incoming w"
    "written w3' = written w" "overrun w3' = (overrun w \<or> 5 \<le> length parameter)"
    using w3 by (simp_all add: w3'_def store_def)
  obtain r w4 where s: "sendcommand command parameter w3' = Val r w4"
    and w4: "written w4 = written w3' @ [command, parameter, [CR]]" "incoming w4 = left"
      "nosend w4 = False" "overrun w4 = overrun w3'"
    using assms(6) [OF w3'(1,2)] by blast
  define w4' where "w4' = store 5 parameter' w4"
  have w4': "nosend w4' = False" "incoming w4' = left"
    "written w4' = written w @ [command, parameter, [CR]]"
    "overrun w4' = (overrun w \<or> 5 \<le> length parameter \<or> 5 \<le> length parameter')"
    using w4 w3' by (auto simp add: w4'_def store_def)
  obtain r' w5 where s': "sendcommand command' parameter' w4' = Val r' w5"
    and w5: "written w5 = written w4' @ [command', parameter', [CR]]" "incoming w5 = left'"
      "overrun w5 = overrun w4'"
    using assms(7) [OF w4'(1,2)] by blast
  have "main progname port [name, arg] w = Val EXIT_SUCCESS (close_fd w5)"
    by (simp add: m assms(5) s [unfolded w3'_def] s' [unfolded w4'_def])
  moreover have
    "written (close_fd w5) =
       written w @ [command, parameter, [CR], command', parameter', [CR]]"
    "incoming (close_fd w5) = left'"
    "overrun (close_fd w5) =
       (overrun w \<or> 5 \<le> length parameter \<or> 5 \<le> length parameter')"
    using w5 w4' by (simp_all add: close_fd_def)
  ultimately show ?thesis
    by blast
qed

subsection \<open>dchan and dcabl1\<close>

lemma not_isdigit_dot: "isdigit CHR ''.'' = False"
  by (simp add: isdigit_def)

lemma dropWhile_isspace_utoa: "dropWhile isspace (utoa m @ rest) \<noteq> []"
proof -
  obtain d ds where u: "utoa m = d # ds" and d: "isdigit d"
    using utoa_Cons by blast
  show ?thesis
    using not_isspace_digit [OF d] by (simp add: u)
qed

lemma sscanf_major_minor:
  assumes "m < 2 ^ 31" and "n < 2 ^ 31"
  shows "sscanf_d_dot_d (utoa m @ ''.'' @ utoa n) chan subchan = (2, int m, int n)"
proof -
  have "scan_d (utoa m @ CHR ''.'' # utoa n) = Some (int m, CHR ''.'' # utoa n)"
    using assms(1) by (intro scan_d_utoa) (simp_all add: not_isdigit_dot)
  moreover have "scan_d (utoa n @ []) = Some (int n, [])"
    using assms(2) by (intro scan_d_utoa) simp_all
  ultimately show ?thesis
    using dropWhile_isspace_utoa [of m "CHR ''.'' # utoa n"]
    by (simp add: sscanf_d_dot_d_def)
qed

lemma sscanf_major:
  assumes "m < 2 ^ 31"
  shows "sscanf_d_dot_d (utoa m) chan subchan = (1, int m, subchan)"
proof -
  have "scan_d (utoa m @ []) = Some (int m, [])"
    using assms by (intro scan_d_utoa) simp_all
  then show ?thesis
    using dropWhile_isspace_utoa [of m "[]"]
    by (simp add: sscanf_d_dot_d_def)
qed

lemma sprintf_02d: "n \<le> 99 \<Longrightarrow> sprintf_0d 2 (int n) = zero_padded 2 n"
  using sprintf_0d_zero_padded [of 2 "int n"] by simp

lemma sprintf_03d: "n \<le> 999 \<Longrightarrow> sprintf_0d 3 (int n) = zero_padded 3 n"
  using sprintf_0d_zero_padded [of 3 "int n"] by simp

lemma dchan_switch:
  assumes "sscanf_d_dot_d arg 0 0 = (n, chan, subchan)" and "0 < n"
  shows "main_switch CMD_DCHAN progname oparg arg arg2 w =
     discard_then
       (sendcommand ''DA2P'' (sprintf_0d 2 chan @ sprintf_0d 2 subchan)
          (store 5 (sprintf_0d 2 chan @ sprintf_0d 2 subchan) w))
       (Val ())"
  using assms by (simp add: main_switch_def case_DCHAN_def param_DCHAN_def)

lemma dcabl1_switch:
  assumes "sscanf_d_dot_d arg 0 0 = (n, chan, subchan)" and "0 < n"
    and "chan \<le> 999" and "subchan \<le> 999"
  shows "main_switch CMD_DCABL1 progname oparg arg arg2 w =
     discard_then
       (sendcommand ''DC2U'' (sprintf_0d 3 chan @ '' '') (store 5 (sprintf_0d 3 chan @ '' '') w))
       (\<lambda>w'. discard_then
               (sendcommand ''DC2L'' (sprintf_0d 3 subchan @ '' '')
                  (store 5 (sprintf_0d 3 subchan @ '' '') w'))
               (Val ()))"
  using assms by (simp add: main_switch_def case_DCABL1_def chan_DCABL1_def Let_def)

lemma length_dotted: "m \<le> 999 \<Longrightarrow> n \<le> 999 \<Longrightarrow> length (utoa m @ CHR ''.'' # utoa n) < 16"
  using length_utoa [of 3 m] length_utoa [of 3 n] by simp

lemma length_major: "m \<le> 999 \<Longrightarrow> length (utoa m) < 16"
  using length_utoa [of 3 m] by simp

text \<open>
  Claim C7. For a major number m and a minor number n of at most three digits, written
  in decimal, \<^verbatim>\<open>sscanf\<close> reads both from \<open>m.n\<close> and reads m alone from \<open>m\<close>, where the
  minor number keeps its initial value 0. Run without \<^verbatim>\<open>-n\<close> on a port that opens (its
  name fits \<^verbatim>\<open>port[32]\<close>) and on which the device answers (the first \<^verbatim>\<open>read\<close> after a
  frame finds at least one byte), \<^verbatim>\<open>dchan\<close> writes one frame to the port: \<^verbatim>\<open>DA2P\<close>, the two
  numbers in two digits each (for numbers up to 99) and a carriage return; it takes one
  answer. \<^verbatim>\<open>dcabl1\<close> writes two frames when the device answers both: \<^verbatim>\<open>DC2U\<close> with the
  major number and then \<^verbatim>\<open>DC2L\<close> with the minor number, each in three digits and a
  space, and takes two answers. Nothing else is written, no array is overrun, and
  \<^verbatim>\<open>main\<close> returns \<^verbatim>\<open>EXIT_SUCCESS\<close>. So \<open>5.12\<close> is read as 5 and 12, \<open>5\<close> as 5 and 0,
  \<^verbatim>\<open>dchan 5.12\<close> writes \<open>DA2P\<close>, \<open>0512\<close> and the carriage return, and \<^verbatim>\<open>dcabl1 5.12\<close> writes
  \<open>DC2U\<close>, \<open>005 \<close>, the carriage return, \<open>DC2L\<close>, \<open>012 \<close> and the carriage return.
\<close>

theorem dotted_pair:
  assumes "m \<le> 999" and "n \<le> 999"
    and "nosend w = False" and "open_error w = None"
    and "read_loop [] (incoming w) = Some (bytes, left)" and "bytes \<noteq> []"
    and "length port < 32"
  shows "sscanf_d_dot_d (utoa m @ ''.'' @ utoa n) 0 0 = (2, int m, int n) \<and>
         sscanf_d_dot_d (utoa m) 0 0 = (1, int m, 0) \<and>
         (m \<le> 99 \<and> n \<le> 99 \<longrightarrow>
            (\<exists>w'. main progname port [''dchan'', utoa m @ ''.'' @ utoa n] w = Val EXIT_SUCCESS w' \<and>
                  written w' = written w @ [''DA2P'', zero_padded 2 m @ zero_padded 2 n, [CR]] \<and>
                  incoming w' = left \<and> overrun w' = overrun w)) \<and>
         (m \<le> 99 \<longrightarrow>
            (\<exists>w'. main progname port [''dchan'', utoa m] w = Val EXIT_SUCCESS w' \<and>
                  written w' = written w @ [''DA2P'', zero_padded 2 m @ ''00'', [CR]] \<and>
                  incoming w' = left \<and> overrun w' = overrun w)) \<and>
         (read_loop [] left = Some (bytes', left') \<and> bytes' \<noteq> [] \<longrightarrow>
            (\<exists>w'. main progname port [''dcabl1'', utoa m @ ''.'' @ utoa n] w = Val EXIT_SUCCESS w' \<and>
                  written w' =
                    written w @ [''DC2U'', zero_padded 3 m @ '' '', [CR],
                                 ''DC2L'', zero_padded 3 n @ '' '', [CR]] \<and>
                  incoming w' = left' \<and> overrun w' = overrun w) \<and>
            (\<exists>w'. main progname port [''dcabl1'', utoa m] w = Val EXIT_SUCCESS w' \<and>
                  written w' =
                    written w @ [''DC2U'', zero_padded 3 m @ '' '', [CR],
                                 ''DC2L'', ''000 '', [CR]] \<and>
                  incoming w' = left' \<and> overrun w' = overrun w))"
proof -
  from assms(1,2) have mn: "m < 2 ^ 31" "n < 2 ^ 31"
    by simp_all
  have two: "sscanf_d_dot_d (utoa m @ ''.'' @ utoa n) 0 0 = (2, int m, int n)"
    using mn by (rule sscanf_major_minor)
  have one: "sscanf_d_dot_d (utoa m) 0 0 = (1, int m, 0)"
    using mn(1) by (rule sscanf_major)
  from two have two': "sscanf_d_dot_d (utoa m @ CHR ''.'' # utoa n) 0 0 = (2, int m, int n)"
    by simp
  have z: "sprintf_0d 2 0 = ''00''" "sprintf_0d 3 0 = ''000''"
    using sprintf_02d [of 0] sprintf_03d [of 0]
    by (simp_all add: zero_padded_2 zero_padded_3 digit_char_simps)
  have p2: "sprintf_0d 2 (int m) = zero_padded 2 m" if "m \<le> 99"
    using that by (rule sprintf_02d)
  have q2: "sprintf_0d 2 (int n) = zero_padded 2 n" if "n \<le> 99"
    using that by (rule sprintf_02d)
  have p3: "sprintf_0d 3 (int m) = zero_padded 3 m" "sprintf_0d 3 (int n) = zero_padded 3 n"
    using assms(1,2) by (simp_all add: sprintf_03d)
  have l: "length ''dchan'' < 16" "length ''dcabl1'' < 16"
    "length (utoa m @ CHR ''.'' # utoa n) < 16" "length (utoa m) < 16"
    using length_dotted [OF assms(1,2)] length_major [OF assms(1)] by simp_all
  note live = assms(3,4)
  have send: "\<exists>r w4. sendcommand command parameter w3 = Val r w4 \<and>
      written w4 = written w3 @ [command, parameter, [CR]] \<and> incoming w4 = rest \<and>
      nosend w4 = False \<and> overrun w4 = overrun w3"
    if "nosend w3 = False" and "read_loop [] (incoming w3) = Some (reply, rest)"
      and "reply \<noteq> []" for command parameter w3 reply rest
    using that
    by (simp add: sendcommand_def Let_def write_fd_def printf_def fprintf_stderr_def)
  have first: "\<exists>r w4. sendcommand command parameter w3 = Val r w4 \<and>
      written w4 = written w3 @ [command, parameter, [CR]] \<and> incoming w4 = left \<and>
      nosend w4 = False \<and> overrun w4 = overrun w3"
    if "nosend w3 = False" and "incoming w3 = incoming w" for command parameter w3
  proof -
    from that(2) assms(5) have "read_loop [] (incoming w3) = Some (bytes, left)"
      by simp
    with that(1) show ?thesis
      using assms(6) by (rule send)
  qed
  have second: "\<exists>r w4. sendcommand command parameter w3 = Val r w4 \<and>
      written w4 = written w3 @ [command, parameter, [CR]] \<and> incoming w4 = left' \<and>
      nosend w4 = False \<and> overrun w4 = overrun w3"
    if "read_loop [] left = Some (bytes', left')" and "bytes' \<noteq> []"
      and "nosend w3 = False" and "incoming w3 = left" for command parameter w3
  proof -
    from that(1,4) have "read_loop [] (incoming w3) = Some (bytes', left')"
      by simp
    with that(3) show ?thesis
      using that(2) by (rule send)
  qed
  have sw_dchan2: "main_switch (checkcmd ''dchan'') progname ''dchan''
        (utoa m @ CHR ''.'' # utoa n) '''' w3 =
      discard_then
        (sendcommand ''DA2P'' (sprintf_0d 2 (int m) @ sprintf_0d 2 (int n))
           (store 5 (sprintf_0d 2 (int m) @ sprintf_0d 2 (int n)) w3))
        (Val ())" for w3
    unfolding checkcmd_dchan using two' by (rule dchan_switch) simp
  have sw_dchan1: "main_switch (checkcmd ''dchan'') progname ''dchan'' (utoa m) '''' w3 =
      discard_then
        (sendcommand ''DA2P'' (sprintf_0d 2 (int m) @ sprintf_0d 2 0)
           (store 5 (sprintf_0d 2 (int m) @ sprintf_0d 2 0) w3))
        (Val ())" for w3
    unfolding checkcmd_dchan using one by (rule dchan_switch) simp
  have sw_dcabl2: "main_switch (checkcmd ''dcabl1'') progname ''dcabl1''
        (utoa m @ CHR ''.'' # utoa n) '''' w3 =
      discard_then
        (sendcommand ''DC2U'' (sprintf_0d 3 (int m) @ '' '')
           (store 5 (sprintf_0d 3 (int m) @ '' '') w3))
        (\<lambda>w'. discard_then
                (sendcommand ''DC2L'' (sprintf_0d 3 (int n) @ '' '')
                   (store 5 (sprintf_0d 3 (int n) @ '' '') w'))
                (Val ()))" for w3
    unfolding checkcmd_dcabl1 by (rule dcabl1_switch [OF two']) (use assms(1,2) in simp_all)
  have sw_dcabl1: "main_switch (checkcmd ''dcabl1'') progname ''dcabl1'' (utoa m) '''' w3 =
      discard_then
        (sendcommand ''DC2U'' (sprintf_0d 3 (int m) @ '' '')
           (store 5 (sprintf_0d 3 (int m) @ '' '') w3))
        (\<lambda>w'. discard_then
                (sendcommand ''DC2L'' (sprintf_0d 3 0 @ '' '')
                   (store 5 (sprintf_0d 3 0 @ '' '') w'))
                (Val ()))" for w3
    unfolding checkcmd_dcabl1 by (rule dcabl1_switch [OF one]) (use assms(1) in simp_all)
  have dchan2: "\<exists>w'. main progname port [''dchan'', utoa m @ ''.'' @ utoa n] w = Val EXIT_SUCCESS w' \<and>
      written w' = written w @ [''DA2P'', zero_padded 2 m @ zero_padded 2 n, [CR]] \<and>
      incoming w' = left \<and> overrun w' = overrun w"
    if "m \<le> 99" and "n \<le> 99"
  proof -
    have "\<exists>w'. main progname port [''dchan'', utoa m @ CHR ''.'' # utoa n] w = Val EXIT_SUCCESS w' \<and>
        written w' =
          written w @ [''DA2P'', sprintf_0d 2 (int m) @ sprintf_0d 2 (int n), [CR]] \<and>
        incoming w' = left \<and>
        overrun w' =
          (overrun w \<or> 5 \<le> length (sprintf_0d 2 (int m) @ sprintf_0d 2 (int n)))"
      using live l(1) l(3) sw_dchan2 first by (rule main_one_frame)
    then show ?thesis
      by (simp add: p2 [OF that(1)] q2 [OF that(2)] length_zero_padded)
  qed
  have dchan1: "\<exists>w'. main progname port [''dchan'', utoa m] w = Val EXIT_SUCCESS w' \<and>
      written w' = written w @ [''DA2P'', zero_padded 2 m @ ''00'', [CR]] \<and>
      incoming w' = left \<and> overrun w' = overrun w"
    if "m \<le> 99"
  proof -
    have "\<exists>w'. main progname port [''dchan'', utoa m] w = Val EXIT_SUCCESS w' \<and>
        written w' = written w @ [''DA2P'', sprintf_0d 2 (int m) @ sprintf_0d 2 0, [CR]] \<and>
        incoming w' = left \<and>
        overrun w' = (overrun w \<or> 5 \<le> length (sprintf_0d 2 (int m) @ sprintf_0d 2 0))"
      using live l(1) l(4) sw_dchan1 first by (rule main_one_frame)
    then show ?thesis
      by (simp add: p2 [OF that] length_zero_padded z)
  qed
  have dcabl2: "\<exists>w'. main progname port [''dcabl1'', utoa m @ ''.'' @ utoa n] w = Val EXIT_SUCCESS w' \<and>
      written w' = written w @ [''DC2U'', zero_padded 3 m @ '' '', [CR],
                                ''DC2L'', zero_padded 3 n @ '' '', [CR]] \<and>
      incoming w' = left' \<and> overrun w' = overrun w"
    if "read_loop [] left = Some (bytes', left')" and "bytes' \<noteq> []"
  proof -
    have "\<exists>w'. main progname port [''dcabl1'', utoa m @ CHR ''.'' # utoa n] w = Val EXIT_SUCCESS w' \<and>
        written w' =
          written w @ [''DC2U'', sprintf_0d 3 (int m) @ '' '', [CR],
                       ''DC2L'', sprintf_0d 3 (int n) @ '' '', [CR]] \<and>
        incoming w' = left' \<and>
        overrun w' =
          (overrun w \<or> 5 \<le> length (sprintf_0d 3 (int m) @ '' '') \<or>
           5 \<le> length (sprintf_0d 3 (int n) @ '' ''))"
      using live l(2) l(3) sw_dcabl2 first second [OF that] by (rule main_two_frames)
    then show ?thesis
      by (simp add: p3 length_zero_padded)
  qed
  have dcabl1: "\<exists>w'. main progname port [''dcabl1'', utoa m] w = Val EXIT_SUCCESS w' \<and>
      written w' = written w @ [''DC2U'', zero_padded 3 m @ '' '', [CR],
                                ''DC2L'', ''000 '', [CR]] \<and>
      incoming w' = left' \<and> overrun w' = overrun w"
    if "read_loop [] left = Some (bytes', left')" and "bytes' \<noteq> []"
  proof -
    have "\<exists>w'. main progname port [''dcabl1'', utoa m] w = Val EXIT_SUCCESS w' \<and>
        written w' =
          written w @ [''DC2U'', sprintf_0d 3 (int m) @ '' '', [CR],
                       ''DC2L'', sprintf_0d 3 0 @ '' '', [CR]] \<and>
        incoming w' = left' \<and>
        overrun w' =
          (overrun w \<or> 5 \<le> length (sprintf_0d 3 (int m) @ '' '') \<or>
           5 \<le> length (sprintf_0d 3 0 @ '' ''))"
      using live l(2) l(4) sw_dcabl1 first second [OF that] by (rule main_two_frames)
    then show ?thesis
      by (simp add: p3 length_zero_padded z)
  qed
  from two one dchan2 dchan1 dcabl2 dcabl1 show ?thesis
    by blast
qed

theorem dotted_pair_witness:
  "sscanf_d_dot_d ''5.12'' 0 0 = (2, 5, 12) \<and>
   sscanf_d_dot_d ''5'' 0 0 = (1, 5, 0) \<and>
   (\<exists>w'. main ''aquosctl'' ''/dev/ttyS0'' [''dchan'', ''5.12'']
            (started False False [''OK'' @ [CR], ''OK'' @ [CR]]) = Val EXIT_SUCCESS w' \<and>
         written w' = [''DA2P'', ''0512'', [CR]] \<and> incoming w' = [''OK'' @ [CR]] \<and>
         overrun w' = False) \<and>
   (\<exists>w'. main ''aquosctl'' ''/dev/ttyS0'' [''dchan'', ''5'']
            (started False False [''OK'' @ [CR], ''OK'' @ [CR]]) = Val EXIT_SUCCESS w' \<and>
         written w' = [''DA2P'', ''0500'', [CR]] \<and> incoming w' = [''OK'' @ [CR]] \<and>
         overrun w' = False) \<and>
   (\<exists>w'. main ''aquosctl'' ''/dev/ttyS0'' [''dcabl1'', ''5.12'']
            (started False False [''OK'' @ [CR], ''OK'' @ [CR]]) = Val EXIT_SUCCESS w' \<and>
         written w' = [''DC2U'', ''005 '', [CR], ''DC2L'', ''012 '', [CR]] \<and> incoming w' = [] \<and>
         overrun w' = False) \<and>
   (\<exists>w'. main ''aquosctl'' ''/dev/ttyS0'' [''dcabl1'', ''5'']
            (started False False [''OK'' @ [CR], ''OK'' @ [CR]]) = Val EXIT_SUCCESS w' \<and>
         written w' = [''DC2U'', ''005 '', [CR], ''DC2L'', ''000 '', [CR]] \<and> incoming w' = [] \<and>
         overrun w' = False)"
proof -
  have u: "utoa 5 = ''5''" "utoa 12 = ''12''"
    by code_simp+
  have z: "zero_padded 2 5 = ''05''" "zero_padded 2 12 = ''12''"
    "zero_padded 3 5 = ''005''" "zero_padded 3 12 = ''012''"
    using digit_char_simps(2) by (simp_all add: zero_padded_2 zero_padded_3 digit_char_simps)
  have h: "(5::nat) \<le> 999" "(12::nat) \<le> 999"
    by simp_all
  have live: "nosend (started False False [''OK'' @ [CR], ''OK'' @ [CR]]) = False"
    "open_error (started False False [''OK'' @ [CR], ''OK'' @ [CR]]) = None"
    by (simp_all add: started_def)
  have first: "read_loop [] (incoming (started False False [''OK'' @ [CR], ''OK'' @ [CR]])) =
      Some (''OK'' @ [CR], [''OK'' @ [CR]])"
    by (simp add: started_def Let_def)
  have second: "read_loop [] [''OK'' @ [CR]] = Some (''OK'' @ [CR], [])"
    by (simp add: Let_def)
  have ne: "''OK'' @ [CR] \<noteq> []"
    by simp
  have p: "length ''/dev/ttyS0'' < 32"
    by simp
  show ?thesis
    using dotted_pair [OF h live first ne p, where progname = "''aquosctl''"
        and bytes' = "''OK'' @ [CR]" and left' = "[]"]
    by (simp add: u z second started_def)
qed

subsection \<open>dchan accepts every number\<close>

lemma not_isspace_sign: "isspace CHR ''-'' = False" "isspace CHR ''+'' = False"
  by (simp_all add: isspace_def)

lemma scan_d_minus_utoa:
  "n \<le> 2 ^ 31 \<Longrightarrow> rest = [] \<or> isdigit (hd rest) = False \<Longrightarrow>
   scan_d (CHR ''-'' # utoa n @ rest) = Some (- int n, rest)"
  by (simp add: scan_d_def not_isspace_sign takeWhile_digits_utoa dropWhile_digits_utoa
      c_int_neg_utoa utoa_not_Nil)

lemma scan_d_sprintf_d:
  assumes "- (2 ^ 31) \<le> v" and "v < 2 ^ 31" and "rest = [] \<or> isdigit (hd rest) = False"
  shows "scan_d (sprintf_0d 0 v @ rest) = Some (v, rest)"
proof (cases "v < 0")
  case True
  with assms(1) have "nat (- v) \<le> 2 ^ 31"
    by simp
  then have "scan_d (CHR ''-'' # utoa (nat (- v)) @ rest) = Some (- int (nat (- v)), rest)"
    using assms(3) by (rule scan_d_minus_utoa)
  with True show ?thesis
    by (simp add: sprintf_0d_0)
next
  case False
  with assms(2) have "nat v < 2 ^ 31"
    by simp
  then have "scan_d (utoa (nat v) @ rest) = Some (int (nat v), rest)"
    using assms(3) by (rule scan_d_utoa)
  with False show ?thesis
    by (simp add: sprintf_0d_0)
qed

lemma dropWhile_isspace_sprintf_d: "dropWhile isspace (sprintf_0d 0 v @ rest) \<noteq> []"
  using dropWhile_isspace_utoa [of "nat v" rest]
  by (simp add: sprintf_0d_0 not_isspace_sign)

lemma sscanf_signed_major_minor:
  assumes "- (2 ^ 31) \<le> v" and "v < 2 ^ 31" and "u < 2 ^ 31"
  shows "sscanf_d_dot_d (sprintf_0d 0 v @ CHR ''.'' # utoa u) chan subchan = (2, v, int u)"
proof -
  have "scan_d (sprintf_0d 0 v @ CHR ''.'' # utoa u) = Some (v, CHR ''.'' # utoa u)"
    using assms(1,2) by (intro scan_d_sprintf_d) (simp_all add: not_isdigit_dot)
  moreover have "scan_d (utoa u @ []) = Some (int u, [])"
    using assms(3) by (intro scan_d_utoa) simp_all
  ultimately show ?thesis
    using dropWhile_isspace_sprintf_d [of v "CHR ''.'' # utoa u"]
    by (simp add: sscanf_d_dot_d_def)
qed

lemma sscanf_signed_major:
  assumes "- (2 ^ 31) \<le> v" and "v < 2 ^ 31"
  shows "sscanf_d_dot_d (sprintf_0d 0 v) chan subchan = (1, v, subchan)"
proof -
  have "scan_d (sprintf_0d 0 v @ []) = Some (v, [])"
    using assms by (intro scan_d_sprintf_d) simp_all
  then show ?thesis
    using dropWhile_isspace_sprintf_d [of v "[]"]
    by (simp add: sscanf_d_dot_d_def)
qed

lemma scan_d_leading_digit:
  assumes "isdigit d"
    and "arg = d # rest \<or> arg = CHR ''-'' # d # rest \<or> arg = CHR ''+'' # d # rest"
  shows "dropWhile isspace arg \<noteq> [] \<and> (\<exists>c r. scan_d arg = Some (c, r))"
  using assms not_isspace_digit [OF assms(1)] not_sign_digit [OF assms(1)]
  by (auto simp add: scan_d_def not_isspace_sign)

lemma sscanf_count_positive:
  assumes "dropWhile isspace arg \<noteq> []" and "scan_d arg = Some (c, r)"
  shows "\<exists>n chan subchan. sscanf_d_dot_d arg a b = (n, chan, subchan) \<and> 0 < n"
  using assms by (auto simp add: sscanf_d_dot_d_def split: list.splits option.splits)

lemma length_sprintf_d:
  assumes "- (2 ^ 31) \<le> v" and "v < 2 ^ 31"
  shows "length (sprintf_0d 0 v) < 16"
proof -
  from assms have "nat \<bar>v\<bar> < 10 ^ 10"
    by simp
  then have "length (utoa (nat \<bar>v\<bar>)) \<le> 10"
    using length_utoa [of 10 "nat \<bar>v\<bar>"] by simp
  then show ?thesis
    by (cases "v < 0") (simp_all add: sprintf_0d_def Let_def abs_if)
qed

lemma accepted_dchan:
  assumes "sscanf_d_dot_d arg 0 0 = (n, chan, subchan)" and "0 < n"
  shows "accepted CMD_DCHAN arg arg2"
  using assms by (simp add: accepted_def param_DCHAN_def)

text \<open>
  Claim C10. \<^verbatim>\<open>dchan\<close> only asks that \<^verbatim>\<open>sscanf\<close> reads at least one number. Take an
  argument of fewer than 16 characters that begins with a digit, or with a sign and a
  digit (on the command line a \<^verbatim>\<open>--\<close> has to stand before an operand that begins with
  a minus). It is accepted, and without \<^verbatim>\<open>-n\<close>, on a port that opens (its name fits
  \<^verbatim>\<open>port[32]\<close>) and on which the device answers, \<^verbatim>\<open>main\<close> writes the frame \<^verbatim>\<open>DA2P\<close>
  with the parameter \<^verbatim>\<open>"%02d%02d"\<close> of the two numbers read and the carriage return, and
  returns \<^verbatim>\<open>EXIT_SUCCESS\<close>. No bound is put on the numbers, though the usage text gives
  1-99 for both: this holds for every \<^verbatim>\<open>int\<close> v written in decimal, alone or, when the
  text has fewer than 16 characters, followed by a dot and a number u below \<open>2^31\<close>. The
  parameter is written into \<^verbatim>\<open>param[5]\<close> whatever its length: the array is overrun
  exactly when the parameter has five characters or more. So \<open>0\<close> is sent as \<open>0000\<close>,
  \<open>-5\<close> as \<open>-500\<close>, and \<open>500.1\<close> as \<open>50001\<close>, which is one byte more than the array holds.
\<close>

theorem dchan_no_range_check:
  assumes "isdigit d"
    and "arg = d # rest \<or> arg = CHR ''-'' # d # rest \<or> arg = CHR ''+'' # d # rest"
    and "length arg < 16"
    and "- (2 ^ 31) \<le> v" and "v < 2 ^ 31" and "u < 2 ^ 31"
    and "nosend w = False" and "open_error w = None"
    and "read_loop [] (incoming w) = Some (bytes, left)" and "bytes \<noteq> []"
    and "length port < 32"
  shows "(\<exists>n chan subchan w'.
            sscanf_d_dot_d arg 0 0 = (n, chan, subchan) \<and> 0 < n \<and>
            accepted (checkcmd ''dchan'') arg arg2 \<and>
            main progname port [''dchan'', arg] w = Val EXIT_SUCCESS w' \<and>
            written w' =
              written w @ [''DA2P'', sprintf_0d 2 chan @ sprintf_0d 2 subchan, [CR]] \<and>
            incoming w' = left \<and>
            overrun w' =
              (overrun w \<or> 5 \<le> length (sprintf_0d 2 chan @ sprintf_0d 2 subchan))) \<and>
         (length (sprintf_0d 0 v @ ''.'' @ utoa u) < 16 \<longrightarrow>
            (\<exists>w'. main progname port [''dchan'', sprintf_0d 0 v @ ''.'' @ utoa u] w =
                    Val EXIT_SUCCESS w' \<and>
                  written w' =
                    written w @ [''DA2P'', sprintf_0d 2 v @ sprintf_0d 2 (int u), [CR]] \<and>
                  incoming w' = left \<and>
                  overrun w' =
                    (overrun w \<or> 5 \<le> length (sprintf_0d 2 v @ sprintf_0d 2 (int u))))) \<and>
         (\<exists>w'. main progname port [''dchan'', sprintf_0d 0 v] w = Val EXIT_SUCCESS w' \<and>
               written w' = written w @ [''DA2P'', sprintf_0d 2 v @ ''00'', [CR]] \<and>
               incoming w' = left \<and>
               overrun w' = (overrun w \<or> 5 \<le> length (sprintf_0d 2 v @ ''00'')))"
proof (intro conjI impI)
  have l: "length ''dchan'' < 16"
    by simp
  note live = assms(7,8)
  have first: "\<exists>r w4. sendcommand command parameter w3 = Val r w4 \<and>
      written w4 = written w3 @ [command, parameter, [CR]] \<and> incoming w4 = left \<and>
      nosend w4 = False \<and> overrun w4 = overrun w3"
    if "nosend w3 = False" and "incoming w3 = incoming w" for command parameter w3
    using that assms(9,10)
    by (simp add: sendcommand_def Let_def write_fd_def printf_def fprintf_stderr_def)
  obtain c r where "dropWhile isspace arg \<noteq> []" and "scan_d arg = Some (c, r)"
    using scan_d_leading_digit [OF assms(1,2)] by blast
  then obtain n chan subchan where s: "sscanf_d_dot_d arg 0 0 = (n, chan, subchan)" and n: "0 < n"
    using sscanf_count_positive by blast
  have sw: "main_switch (checkcmd ''dchan'') progname ''dchan'' arg '''' w3 =
      discard_then
        (sendcommand ''DA2P'' (sprintf_0d 2 chan @ sprintf_0d 2 subchan)
           (store 5 (sprintf_0d 2 chan @ sprintf_0d 2 subchan) w3))
        (Val ())" for w3
    unfolding checkcmd_dchan using s n by (rule dchan_switch)
  have "\<exists>w'. main progname port [''dchan'', arg] w = Val EXIT_SUCCESS w' \<and>
      written w' = written w @ [''DA2P'', sprintf_0d 2 chan @ sprintf_0d 2 subchan, [CR]] \<and>
      incoming w' = left \<and>
      overrun w' = (overrun w \<or> 5 \<le> length (sprintf_0d 2 chan @ sprintf_0d 2 subchan))"
    using live l assms(3) sw first by (rule main_one_frame)
  moreover have "accepted (checkcmd ''dchan'') arg arg2"
    using accepted_dchan [OF s n] by (simp add: checkcmd_dchan)
  ultimately show "\<exists>n chan subchan w'.
      sscanf_d_dot_d arg 0 0 = (n, chan, subchan) \<and> 0 < n \<and>
      accepted (checkcmd ''dchan'') arg arg2 \<and>
      main progname port [''dchan'', arg] w = Val EXIT_SUCCESS w' \<and>
      written w' =
        written w @ [''DA2P'', sprintf_0d 2 chan @ sprintf_0d 2 subchan, [CR]] \<and>
      incoming w' = left \<and>
      overrun w' =
        (overrun w \<or> 5 \<le> length (sprintf_0d 2 chan @ sprintf_0d 2 subchan))"
    using s n by blast
next
  assume len: "length (sprintf_0d 0 v @ ''.'' @ utoa u) < 16"
  have l: "length ''dchan'' < 16"
    by simp
  have first: "\<exists>r w4. sendcommand command parameter w3 = Val r w4 \<and>
      written w4 = written w3 @ [command, parameter, [CR]] \<and> incoming w4 = left \<and>
      nosend w4 = False \<and> overrun w4 = overrun w3"
    if "nosend w3 = False" and "incoming w3 = incoming w" for command parameter w3
    using that assms(9,10)
    by (simp add: sendcommand_def Let_def write_fd_def printf_def fprintf_stderr_def)
  have s: "sscanf_d_dot_d (sprintf_0d 0 v @ ''.'' @ utoa u) 0 0 = (2, v, int u)"
    using sscanf_signed_major_minor [OF assms(4-6)] by simp
  have p: "(0::int) < 2"
    by simp
  have sw: "main_switch (checkcmd ''dchan'') progname ''dchan''
        (sprintf_0d 0 v @ ''.'' @ utoa u) '''' w3 =
      discard_then
        (sendcommand ''DA2P'' (sprintf_0d 2 v @ sprintf_0d 2 (int u))
           (store 5 (sprintf_0d 2 v @ sprintf_0d 2 (int u)) w3))
        (Val ())" for w3
    unfolding checkcmd_dchan using s p by (rule dchan_switch)
  show "\<exists>w'. main progname port [''dchan'', sprintf_0d 0 v @ ''.'' @ utoa u] w =
        Val EXIT_SUCCESS w' \<and>
      written w' = written w @ [''DA2P'', sprintf_0d 2 v @ sprintf_0d 2 (int u), [CR]] \<and>
      incoming w' = left \<and>
      overrun w' = (overrun w \<or> 5 \<le> length (sprintf_0d 2 v @ sprintf_0d 2 (int u)))"
    using assms(7,8) l len sw first by (rule main_one_frame)
next
  have l: "length ''dchan'' < 16"
    by simp
  have first: "\<exists>r w4. sendcommand command parameter w3 = Val r w4 \<and>
      written w4 = written w3 @ [command, parameter, [CR]] \<and> incoming w4 = left \<and>
      nosend w4 = False \<and> overrun w4 = overrun w3"
    if "nosend w3 = False" and "incoming w3 = incoming w" for command parameter w3
    using that assms(9,10)
    by (simp add: sendcommand_def Let_def write_fd_def printf_def fprintf_stderr_def)
  have s: "sscanf_d_dot_d (sprintf_0d 0 v) 0 0 = (1, v, 0)"
    using assms(4,5) by (rule sscanf_signed_major)
  have p: "(0::int) < 1"
    by simp
  have z: "sprintf_0d 2 0 = ''00''"
    using sprintf_02d [of 0] by (simp add: zero_padded_2 digit_char_simps)
  have sw: "main_switch (checkcmd ''dchan'') progname ''dchan'' (sprintf_0d 0 v) '''' w3 =
      discard_then
        (sendcommand ''DA2P'' (sprintf_0d 2 v @ sprintf_0d 2 0)
           (store 5 (sprintf_0d 2 v @ sprintf_0d 2 0) w3))
        (Val ())" for w3
    unfolding checkcmd_dchan using s p by (rule dchan_switch)
  have "\<exists>w'. main progname port [''dchan'', sprintf_0d 0 v] w = Val EXIT_SUCCESS w' \<and>
      written w' = written w @ [''DA2P'', sprintf_0d 2 v @ sprintf_0d 2 0, [CR]] \<and>
      incoming w' = left \<and>
      overrun w' = (overrun w \<or> 5 \<le> length (sprintf_0d 2 v @ sprintf_0d 2 0))"
    using assms(7,8) l length_sprintf_d [OF assms(4,5)] sw first by (rule main_one_frame)
  then show "\<exists>w'. main progname port [''dchan'', sprintf_0d 0 v] w = Val EXIT_SUCCESS w' \<and>
      written w' = written w @ [''DA2P'', sprintf_0d 2 v @ ''00'', [CR]] \<and>
      incoming w' = left \<and>
      overrun w' = (overrun w \<or> 5 \<le> length (sprintf_0d 2 v @ ''00''))"
    by (simp only: z)
qed

theorem dchan_no_range_check_witness:
  "(\<exists>n chan subchan w'.
      sscanf_d_dot_d ''-5'' 0 0 = (n, chan, subchan) \<and> 0 < n \<and>
      accepted (checkcmd ''dchan'') ''-5'' '''' \<and>
      main ''aquosctl'' ''/dev/ttyS0'' [''dchan'', ''-5''] (started False False [''OK'' @ [CR]]) =
        Val EXIT_SUCCESS w' \<and>
      written w' = [''DA2P'', sprintf_0d 2 chan @ sprintf_0d 2 subchan, [CR]] \<and>
      incoming w' = [] \<and>
      overrun w' = (5 \<le> length (sprintf_0d 2 chan @ sprintf_0d 2 subchan))) \<and>
   (\<exists>w'. main ''aquosctl'' ''/dev/ttyS0'' [''dchan'', ''0''] (started False False [''OK'' @ [CR]]) =
           Val EXIT_SUCCESS w' \<and>
         written w' = [''DA2P'', ''0000'', [CR]] \<and> incoming w' = [] \<and> overrun w' = False) \<and>
   (\<exists>w'. main ''aquosctl'' ''/dev/ttyS0'' [''dchan'', ''500.1'']
           (started False False [''OK'' @ [CR]]) = Val EXIT_SUCCESS w' \<and>
         written w' = [''DA2P'', ''50001'', [CR]] \<and> incoming w' = [] \<and> overrun w' = True) \<and>
   (\<exists>w'. main ''aquosctl'' ''/dev/ttyS0'' [''dchan'', ''-5''] (started False False [''OK'' @ [CR]]) =
           Val EXIT_SUCCESS w' \<and>
         written w' = [''DA2P'', ''-500'', [CR]] \<and> incoming w' = [] \<and> overrun w' = False)"
proof -
  have d: "isdigit CHR ''5''"
    by (simp add: isdigit_def)
  have a: "''-5'' = CHR ''5'' # [] \<or> ''-5'' = CHR ''-'' # CHR ''5'' # [] \<or>
      ''-5'' = CHR ''+'' # CHR ''5'' # []"
    by simp
  have len: "length ''-5'' < 16"
    by simp
  have b: "- (2 ^ 31) \<le> (0::int)" "(0::int) < 2 ^ 31" "- (2 ^ 31) \<le> (500::int)"
    "(500::int) < 2 ^ 31" "- (2 ^ 31) \<le> (- 5::int)" "(- 5::int) < 2 ^ 31" "(1::nat) < 2 ^ 31"
    by simp_all
  have t: "sprintf_0d 0 0 = ''0''" "sprintf_0d 0 500 = ''500''" "sprintf_0d 0 (- 5) = ''-5''"
    "utoa (Suc 0) = ''1''" "sprintf_0d 2 0 = ''00''" "sprintf_0d 2 500 = ''500''"
    "sprintf_0d 2 1 = ''01''" "sprintf_0d 2 (- 5) = ''-5''"
    by code_simp+
  have live: "nosend (started False False [''OK'' @ [CR]]) = False"
    "open_error (started False False [''OK'' @ [CR]]) = None"
    by (simp_all add: started_def)
  have reply: "read_loop [] (incoming (started False False [''OK'' @ [CR]])) =
      Some (''OK'' @ [CR], [])"
    by (simp add: started_def Let_def)
  have ne: "''OK'' @ [CR] \<noteq> []"
    by simp
  have p: "length ''/dev/ttyS0'' < 32"
    by simp
  note zero = dchan_no_range_check [OF d a len b(1) b(2) b(7) live reply ne p,
      where progname = "''aquosctl''" and ?arg2.0 = "''''"]
  note five_hundred = dchan_no_range_check [OF d a len b(3) b(4) b(7) live reply ne p,
      where progname = "''aquosctl''" and ?arg2.0 = "''''"]
  note minus_five = dchan_no_range_check [OF d a len b(5) b(6) b(7) live reply ne p,
      where progname = "''aquosctl''" and ?arg2.0 = "''''"]
  have "\<exists>w'. main ''aquosctl'' ''/dev/ttyS0'' [''dchan'', ''0''] (started False False [''OK'' @ [CR]]) =
           Val EXIT_SUCCESS w' \<and>
         written w' = [''DA2P'', ''0000'', [CR]] \<and> incoming w' = [] \<and> overrun w' = False"
    using zero [THEN conjunct2, THEN conjunct2] by (simp add: t started_def)
  moreover have "\<exists>w'. main ''aquosctl'' ''/dev/ttyS0'' [''dchan'', ''500.1'']
           (started False False [''OK'' @ [CR]]) = Val EXIT_SUCCESS w' \<and>
         written w' = [''DA2P'', ''50001'', [CR]] \<and> incoming w' = [] \<and> overrun w' = True"
    using five_hundred [THEN conjunct2, THEN conjunct1] by (simp add: t started_def)
  moreover have "\<exists>w'. main ''aquosctl'' ''/dev/ttyS0'' [''dchan'', ''-5'']
           (started False False [''OK'' @ [CR]]) = Val EXIT_SUCCESS w' \<and>
         written w' = [''DA2P'', ''-500'', [CR]] \<and> incoming w' = [] \<and> overrun w' = False"
    using minus_five [THEN conjunct2, THEN conjunct2] by (simp add: t started_def)
  moreover have "\<exists>n chan subchan w'.
      sscanf_d_dot_d ''-5'' 0 0 = (n, chan, subchan) \<and> 0 < n \<and>
      accepted (checkcmd ''dchan'') ''-5'' '''' \<and>
      main ''aquosctl'' ''/dev/ttyS0'' [''dchan'', ''-5''] (started False False [''OK'' @ [CR]]) =
        Val EXIT_SUCCESS w' \<and>
      written w' = [''DA2P'', sprintf_0d 2 chan @ sprintf_0d 2 subchan, [CR]] \<and>
      incoming w' = [] \<and>
      overrun w' = (5 \<le> length (sprintf_0d 2 chan @ sprintf_0d 2 subchan))"
    using zero [THEN conjunct1] by (simp add: started_def)
  ultimately show ?thesis
    by (intro conjI)
qed

subsection \<open>An accepted argument reaches sendcommand\<close>

text \<open>
  \<^verbatim>\<open>sendcommand\<close> always leaves a trace: a line on the standard output with \<^verbatim>\<open>-n\<close>, three
  writes to the port without. A refusal leaves none. So \<open>accepted\<close> holds exactly for
  the invocations whose switch case gets as far as \<^verbatim>\<open>sendcommand\<close>.
\<close>

lemma sendcommand_grows:
  assumes "sendcommand command parameter w = Val r w' \<or>
           sendcommand command parameter w = Exit st w'"
  shows "length (written w) + length (stdout w) < length (written w') + length (stdout w')"
proof (cases "nosend w")
  case True
  with assms show ?thesis
    by (auto simp add: sendcommand_nosend printf_def)
next
  case False
  with assms show ?thesis
    by (auto simp add: sendcommand_def Let_def leave_def close_fd_def printf_def write_fd_def
        fprintf_stderr_def split: option.splits if_splits)
qed

lemma discard_then_cases:
  assumes "discard_then r k = Val v w' \<or> discard_then r k = Exit st w'"
  shows "r = Exit st w' \<or> (\<exists>u w1. r = Val u w1 \<and> (k w1 = Val v w' \<or> k w1 = Exit st w'))"
  using assms by (cases r) auto

lemma send_break_grows:
  assumes "discard_then (sendcommand command parameter w1) (Val ()) = Val u w' \<or>
           discard_then (sendcommand command parameter w1) (Val ()) = Exit st w'"
  shows "length (written w1) + length (stdout w1) < length (written w') + length (stdout w')"
proof -
  from discard_then_cases [OF assms]
  have "\<exists>r. sendcommand command parameter w1 = Val r w' \<or>
      sendcommand command parameter w1 = Exit st w'"
    by auto
  then show ?thesis
    using sendcommand_grows by blast
qed

lemma send_break_Val:
  "discard_then (sendcommand command parameter w1) (Val ()) = Val u w' \<Longrightarrow>
   length (written w1) + length (stdout w1) < length (written w') + length (stdout w')"
  using send_break_grows by blast

lemma send_break_Exit:
  "discard_then (sendcommand command parameter w1) (Val ()) = Exit st w' \<Longrightarrow>
   length (written w1) + length (stdout w1) < length (written w') + length (stdout w')"
  using send_break_grows by blast

lemma passes_Some: "passes x \<Longrightarrow> \<exists>y. x = Some y"
  by (cases x) simp_all

lemma store_trace:
  "written (store n s w) = written w" "stdout (store n s w) = stdout w"
  by (simp_all add: store_def)

lemma case_DCABL1_grows:
  assumes "chan_DCABL1 arg = Some (chan, subchan)"
    and "case_DCABL1 progname oparg arg w = Val u w' \<or>
         case_DCABL1 progname oparg arg w = Exit st w'"
  shows "length (written w) + length (stdout w) < length (written w') + length (stdout w')"
proof -
  define p1 where "p1 = sprintf_0d 3 chan @ '' ''"
  define p2 where "p2 = sprintf_0d 3 subchan @ '' ''"
  have c: "case_DCABL1 progname oparg arg w =
      discard_then (sendcommand ''DC2U'' p1 (store 5 p1 w))
        (\<lambda>w1. discard_then (sendcommand ''DC2L'' p2 (store 5 p2 w1)) (Val ()))"
    using assms(1) by (simp add: case_DCABL1_def p1_def p2_def Let_def)
  from assms(2) discard_then_cases [of "sendcommand ''DC2U'' p1 (store 5 p1 w)" _ u w' st]
  consider "sendcommand ''DC2U'' p1 (store 5 p1 w) = Exit st w'"
    | r w1 where "sendcommand ''DC2U'' p1 (store 5 p1 w) = Val r w1"
      and "discard_then (sendcommand ''DC2L'' p2 (store 5 p2 w1)) (Val ()) = Val u w' \<or>
           discard_then (sendcommand ''DC2L'' p2 (store 5 p2 w1)) (Val ()) = Exit st w'"
    unfolding c by blast
  then show ?thesis
  proof cases
    case 1
    then show ?thesis
      using sendcommand_grows [of "''DC2U''" p1 "store 5 p1 w" _ w' st]
      by (simp add: store_trace)
  next
    case 2
    from 2(1) have "length (written w) + length (stdout w) <
        length (written w1) + length (stdout w1)"
      using sendcommand_grows [of "''DC2U''" p1 "store 5 p1 w" r w1]
      by (simp add: store_trace)
    moreover from 2(2) have "length (written w1) + length (stdout w1) <
        length (written w') + length (stdout w')"
      using send_break_grows [of "''DC2L''" p2 "store 5 p2 w1" u w' st]
      by (simp add: store_trace)
    ultimately show ?thesis
      by simp
  qed
qed

lemma main_switch_accepted:
  assumes "accepted c arg arg2"
    and "main_switch c progname oparg arg arg2 w = Val u w' \<or>
         main_switch c progname oparg arg arg2 w = Exit st w'"
  shows "length (written w) + length (stdout w) < length (written w') + length (stdout w')"
proof (cases "c = CMD_DCABL1")
  case True
  with assms(1) obtain chan subchan where "chan_DCABL1 arg = Some (chan, subchan)"
    by (auto simp add: accepted_def dest!: passes_Some)
  then show ?thesis
    using assms(2) True case_DCABL1_grows by (simp add: main_switch_def)
next
  case False
  with assms show ?thesis
    by (cases c)
      (auto simp add: main_switch_def accepted_def case_defs Let_def store_trace
        dest!: passes_Some send_break_Val send_break_Exit)
qed

subsection \<open>The commands with a range of numbers\<close>

lemma accepted_ranges:
  "accepted CMD_VOLUME arg arg2 = (arg \<noteq> [] \<and> 0 \<le> atoi arg \<and> atoi arg \<le> 60)"
  "accepted CMD_HPOS arg arg2 = (arg \<noteq> [] \<and> 0 \<le> atoi arg \<and> atoi arg \<le> 999)"
  "accepted CMD_VPOS arg arg2 = (arg \<noteq> [] \<and> 0 \<le> atoi arg \<and> atoi arg \<le> 999)"
  "accepted CMD_CLOCK arg arg2 = (arg \<noteq> [] \<and> 0 \<le> atoi arg \<and> atoi arg \<le> 180)"
  "accepted CMD_PHASE arg arg2 = (arg \<noteq> [] \<and> 0 \<le> atoi arg \<and> atoi arg \<le> 40)"
  "accepted CMD_ACHAN arg arg2 = (1 \<le> atoi arg \<and> atoi arg \<le> 135)"
  "accepted CMD_DCABL2 arg arg2 = (0 \<le> atoi arg \<and> atoi arg \<le> 16383)"
  by (auto simp add: accepted_def param_VOLUME_def param_HPOS_def param_VPOS_def
      param_CLOCK_def param_PHASE_def param_ACHAN_def frame_DCABL2_def)

lemma digit_char_Suc_0: "digit_char (Suc 0) = CHR ''1''"
  using digit_char_simps(2) by simp

lemma sprintf_d_not_Nil: "sprintf_0d 0 v \<noteq> []"
  by (simp add: sprintf_0d_0 utoa_not_Nil)

lemma atoi_no_number:
  assumes "isspace c = False" and "isdigit c = False" and "c \<noteq> CHR ''-''" and "c \<noteq> CHR ''+''"
  shows "atoi (c # cs) = 0"
  using assms by (simp add: atoi_def c_int_def dec_value_def long_clamp_def int_of_long_def)

text \<open>
  What the range checks do on a number written in decimal, for every \<^verbatim>\<open>int\<close> v
  (\<^verbatim>\<open>atoi\<close> reads it back), on an argument that starts with a character that is no
  digit, sign or white space (\<^verbatim>\<open>atoi\<close> reads 0), and on the empty argument.
\<close>

lemma range_checks_on_decimal_text:
  assumes "- (2 ^ 31) \<le> v" and "v < 2 ^ 31"
    and "isspace c = False" and "isdigit c = False" and "c \<noteq> CHR ''-''" and "c \<noteq> CHR ''+''"
  shows "accepted CMD_VOLUME (sprintf_0d 0 v) arg2 = (0 \<le> v \<and> v \<le> 60) \<and>
         accepted CMD_CLOCK (sprintf_0d 0 v) arg2 = (0 \<le> v \<and> v \<le> 180) \<and>
         accepted CMD_HPOS (sprintf_0d 0 v) arg2 = (0 \<le> v \<and> v \<le> 999) \<and>
         accepted CMD_VPOS (sprintf_0d 0 v) arg2 = (0 \<le> v \<and> v \<le> 999) \<and>
         accepted CMD_ACHAN (sprintf_0d 0 v) arg2 = (1 \<le> v \<and> v \<le> 135) \<and>
         accepted CMD_DCABL2 (sprintf_0d 0 v) arg2 = (0 \<le> v \<and> v \<le> 16383) \<and>
         (1 \<le> v \<and> v \<le> 40 \<longrightarrow> accepted CMD_PHASE (sprintf_0d 0 v) arg2) \<and>
         (v < 0 \<or> 40 < v \<longrightarrow> accepted CMD_PHASE (sprintf_0d 0 v) arg2 = False) \<and>
         accepted CMD_VOLUME (c # cs) arg2 \<and>
         accepted CMD_CLOCK (c # cs) arg2 \<and>
         accepted CMD_HPOS (c # cs) arg2 \<and>
         accepted CMD_VPOS (c # cs) arg2 \<and>
         accepted CMD_DCABL2 (c # cs) arg2 \<and>
         accepted CMD_ACHAN (c # cs) arg2 = False \<and>
         accepted CMD_VOLUME '''' arg2 = False \<and>
         accepted CMD_CLOCK '''' arg2 = False \<and>
         accepted CMD_PHASE '''' arg2 = False \<and>
         accepted CMD_HPOS '''' arg2 = False \<and>
         accepted CMD_VPOS '''' arg2 = False \<and>
         accepted CMD_ACHAN '''' arg2 = False"
proof -
  have v: "atoi (sprintf_0d 0 v) = v"
    using assms(1,2) by (rule atoi_sprintf_d)
  have c: "atoi (c # cs) = 0"
    using assms(3-6) by (rule atoi_no_number)
  have e: "atoi '''' = 0"
    by code_simp
  show ?thesis
    by (simp add: accepted_ranges v c e sprintf_d_not_Nil)
qed

text \<open>
  Claim C5. The claim says that the argument below the lower bound of a range and every
  argument that is no number fail the check. Run on \<^verbatim>\<open>phase 0\<close>: the command table gives
  the range of \<^verbatim>\<open>phase\<close> as 1 - 40, the check is \<^verbatim>\<open>atoi(arg) >= 0\<close>, and the frame
  \<^verbatim>\<open>PHSE\<close> is written with the parameter 0. Run on \<^verbatim>\<open>vol abc\<close>: \<^verbatim>\<open>atoi\<close> reads 0 from
  \<open>abc\<close>, which is in the range of \<^verbatim>\<open>vol\<close>, and the frame \<^verbatim>\<open>VOLM\<close> is written with the
  text \<open>abc\<close> and a space as its parameter.
\<close>

theorem range_check_accepts_outside_domain:
  "accepted (checkcmd ''phase'') ''0'' '''' \<and>
   main ''aquosctl'' ''/dev/ttyS0'' [''phase'', ''0''] (started False False [''OK'' @ [CR]]) =
     Val EXIT_SUCCESS ((started False False [])\<lparr>written := [''PHSE'', ''0   '', [CR]]\<rparr>) \<and>
   accepted (checkcmd ''vol'') ''abc'' '''' \<and>
   main ''aquosctl'' ''/dev/ttyS0'' [''vol'', ''abc''] (started False False [''OK'' @ [CR]]) =
     Val EXIT_SUCCESS ((started False False [])\<lparr>written := [''VOLM'', ''abc '', [CR]]\<rparr>)"
  by code_simp

end
